theory Spec2Isabelle
  imports Main
begin

section \<open>JavaScript values and containers\<close>

text \<open>
  Identifiers (capability, control, scenario and user ids) are JavaScript values: a
  string, a number, or one of the two absent values. The code tests them for
  truthiness (\<^verbatim>\<open>!capability.capability_id\<close>, \<^verbatim>\<open>control && control.control_id\<close>,
  \<^verbatim>\<open>!scenarioId\<close>), so the empty string and the number zero count as absent too.
\<close>

datatype ident = Undefined | Null | Num int | Str string

fun truthy :: "ident \<Rightarrow> bool" where
  "truthy Undefined = False"
| "truthy Null = False"
| "truthy (Num n) = (n \<noteq> 0)"
| "truthy (Str s) = (s \<noteq> [])"

text \<open>
  A JavaScript \<^verbatim>\<open>Set\<close> iterates in insertion order (\<^verbatim>\<open>Array.from\<close>, \<^verbatim>\<open>forEach\<close>), so it
  is a list without repetition: \<^verbatim>\<open>add\<close> appends a new element and leaves a present one
  where it is, \<^verbatim>\<open>delete\<close> removes it, \<^verbatim>\<open>has\<close> is membership.
\<close>

definition set_has :: "'a list \<Rightarrow> 'a \<Rightarrow> bool" where
  "set_has s x = (x \<in> set s)"

definition set_add :: "'a \<Rightarrow> 'a list \<Rightarrow> 'a list" where
  "set_add x s = (if x \<in> set s then s else s @ [x])"

definition set_delete :: "'a \<Rightarrow> 'a list \<Rightarrow> 'a list" where
  "set_delete x s = removeAll x s"

text \<open>Decimal text of a number, as a template literal prints an integer.\<close>

fun show_nat :: "nat \<Rightarrow> string" where
  "show_nat n =
     (if n < 10 then [char_of (48 + n)]
      else show_nat (n div 10) @ [char_of (48 + n mod 10)])"

definition show_int :: "int \<Rightarrow> string" where
  "show_int i = (if i < 0 then CHR ''-'' # show_nat (nat (- i)) else show_nat (nat i))"

fun show_ident :: "ident \<Rightarrow> string" where
  "show_ident Undefined = ''undefined''"
| "show_ident Null = ''null''"
| "show_ident (Num n) = show_int n"
| "show_ident (Str s) = s"

section \<open>Reference data: the capability tree\<close>

text \<open>
  \<^verbatim>\<open>GET /api/capability-tree\<close> returns the capabilities, each with its nested controls.
  The \<^verbatim>\<open>controls\<close> field may be missing (\<^verbatim>\<open>capability.controls || []\<close>,
  \<^verbatim>\<open>if (capability.controls)\<close>).
\<close>

record control =
  control_id :: ident
  control_title :: string

record capability =
  capability_id :: ident
  capability_name :: string
  controls :: "control list option"

section \<open>Scenario records and requests\<close>

record selection =
  sel_capability_id :: ident
  sel_is_active :: bool

record control_selection =
  csel_control_id :: ident
  csel_is_active :: bool

text \<open>The body of \<^verbatim>\<open>PUT /api/capability-scenarios/{id}\<close>, built by \<^verbatim>\<open>serializeSelections\<close>.\<close>

record serialized =
  selections :: "selection list"
  control_selections :: "control_selection list"

text \<open>
  A scenario as the server returns it. \<^verbatim>\<open>control_selections\<close> is missing in scenarios
  saved before controls were tracked one by one.
\<close>

record scenario =
  scenario_id :: ident
  scenario_name :: string
  is_default :: bool
  scn_selections :: "selection list"
  scn_control_selections :: "control_selection list option"

text \<open>
  The body of \<^verbatim>\<open>POST /api/capability-analysis\<close>: \<^verbatim>\<open>control_ids\<close> is a field that the
  object has or has not.
\<close>

record payload =
  capability_ids :: "ident list"
  control_ids :: "ident list option"

record metrics =
  total_controls :: int
  controls_in_capabilities :: int
  active_controls :: int
  active_risks :: int
  partially_covered_risks :: int
  exposed_risks :: int

text \<open>\<^verbatim>\<open>this.previousMetrics\<close>: every field is \<^verbatim>\<open>null\<close> until the first update.\<close>

record previous_metrics =
  prev_active_controls :: "int option"
  prev_exposed_risks :: "int option"
  prev_partially_covered_risks :: "int option"
  prev_active_risks :: "int option"

datatype color = Green | Yellow | Red

datatype metric_card = ActiveControlsCard | PartiallyCoveredCard | ExposedRisksCard

section \<open>Side effects\<close>

datatype message_type = Info | Success | Warning | Error

datatype save_status = StatusNone | Unsaved | Saving | Saved | SaveError

text \<open>
  What an operation does beyond changing the fields of the dashboard object, in
  program order: the requests it sends, the dialogs it opens, and its calls to what
  shows something on the page (the status message manager, the save status manager,
  \<^verbatim>\<open>showError\<close>, \<^verbatim>\<open>animateMetricChange\<close>, the drawing of the tree). What the page
  then renders is not modelled.
\<close>

datatype event =
    ShowStatusMessage string message_type
  | UpdateSaveStatus save_status
  | ShowError string
  | RenderTree
  | PostCapabilityAnalysis payload
  | AnimateMetricChange metric_card int color
  | GetCurrentUser
  | GetCapabilityTree
  | GetScenarios ident
  | GetScenario ident
  | PutScenario ident serialized
  | DeleteScenario ident
  | Confirm string

section \<open>Local storage and the draft\<close>

record draft =
  draft_activeCapabilityIds :: "ident list"
  draft_activeControlIds :: "ident list"
  draft_updatedAt :: string

text \<open>
  \<^verbatim>\<open>localStorage\<close>: the stored items, and whether the browser lets the page use it. With
  \<open>QuotaExceeded\<close> a write throws; with \<open>Denied\<close> every access throws.
\<close>

datatype storage_mode = Available | QuotaExceeded | Denied

record storage =
  items :: "string \<rightharpoonup> draft"
  mode :: storage_mode

section \<open>The dashboard object\<close>

record scenario_manager =
  sm_userId :: ident
  sm_scenarios :: "scenario list"
  sm_currentScenarioId :: ident

text \<open>
  The fields of the dashboard object that the worksheet operations read or write.
  \<^verbatim>\<open>activeCapabilities\<close> and \<^verbatim>\<open>activeControls\<close> are created as empty sets by the
  constructor of \<^verbatim>\<open>DashboardCore\<close> and only ever replaced by other sets, so the guards
  \<^verbatim>\<open>if (!this.activeControls) this.activeControls = new Set()\<close> never fire and the two
  fields are sets here. \<^verbatim>\<open>treeData\<close> is unset until the tree has been fetched.
\<close>

record dashboard =
  activeCapabilities :: "ident list"
  activeControls :: "ident list"
  treeData :: "capability list option"
  previousMetrics :: previous_metrics
  userId :: ident
  scenarioManager :: "scenario_manager option"
  draftManager_userId :: ident
  currentScenarioId :: ident
  autoSaveTimer :: bool
  localStorage :: storage
  events :: "event list"

text \<open>
  What the outside world answers during one operation: which metric cards the page
  has, the user's answer to a \<^verbatim>\<open>confirm\<close> dialog, the clock, and the outcome of each
  request (\<open>Inl\<close> carries the message of the error thrown, \<open>None\<close> a failed fetch).
\<close>

record page =
  activeControlsEl :: bool
  partiallyCoveredEl :: bool
  exposedRisksEl :: bool

record world =
  document :: page
  confirm_answer :: bool
  now :: string
  current_user_reply :: "string + ident"
  capability_tree_reply :: "capability list option"
  capability_analysis_reply :: "metrics option"
  get_scenarios_reply :: "string + scenario list"
  get_scenario_reply :: "string + scenario"
  put_scenario_reply :: "string + unit"
  delete_scenario_reply :: "string + unit"

definition emit :: "event \<Rightarrow> dashboard \<Rightarrow> dashboard" where
  "emit e d = d\<lparr>events := events d @ [e]\<rparr>"

text \<open>\<^verbatim>\<open>showStatusMessage\<close> and \<^verbatim>\<open>updateSaveStatus\<close> delegate to the two managers.\<close>

definition showStatusMessage :: "string \<Rightarrow> message_type \<Rightarrow> dashboard \<Rightarrow> dashboard" where
  "showStatusMessage message type d = emit (ShowStatusMessage message type) d"

definition updateSaveStatus :: "save_status \<Rightarrow> dashboard \<Rightarrow> dashboard" where
  "updateSaveStatus status d = emit (UpdateSaveStatus status) d"

definition showError :: "string \<Rightarrow> dashboard \<Rightarrow> dashboard" where
  "showError message d = emit (ShowError message) d"

section \<open>Tree renderer: activation status and control selections\<close>

text \<open>
  \<^verbatim>\<open>createCapabilityColumn\<close> computes three flags and from them the class of the
  capability box. It reads the controls as \<^verbatim>\<open>capability.controls || []\<close>. The flags, as
  the code assigns them:
\<close>

definition controlsOrEmpty :: "capability \<Rightarrow> control list" where
  "controlsOrEmpty cap = (case controls cap of None \<Rightarrow> [] | Some cs \<Rightarrow> cs)"

definition capabilityFlags :: "dashboard \<Rightarrow> capability \<Rightarrow> bool \<times> bool \<times> bool" where
  "capabilityFlags d cap =
     (let isActive = set_has (activeCapabilities d) (capability_id cap);
          ctrls = controlsOrEmpty cap;
          activeControlsCount =
            length (filter (\<lambda>c. set_has (activeControls d) (control_id c)) ctrls)
      in if isActive \<and> length ctrls > 0 then
           (if activeControlsCount = length ctrls then (isActive, True, False)
            else (isActive, False, True))
         else if isActive \<and> length ctrls = 0 then (isActive, False, True)
         else (isActive, False, False))"

datatype activation_status = Inactive | FullyActive | PartiallyActive | Active

text \<open>
  The class expression
  \<^verbatim>\<open>isActive ? (isFullyActive ? 'fully-active' : isPartiallyActive ? 'partially-active' : 'active') : 'inactive'\<close>.
\<close>

fun boxClass :: "bool \<times> bool \<times> bool \<Rightarrow> activation_status" where
  "boxClass (isActive, isFullyActive, isPartiallyActive) =
     (if isActive then
        (if isFullyActive then FullyActive
         else if isPartiallyActive then PartiallyActive else Active)
      else Inactive)"

definition computeStatus :: "dashboard \<Rightarrow> capability \<Rightarrow> activation_status" where
  "computeStatus d cap = boxClass (capabilityFlags d cap)"

text \<open>
  \<^verbatim>\<open>createVerticalTree\<close>: without tree data it reports an error and returns; otherwise
  it redraws the columns (the drawing itself is not modelled).
\<close>

definition createVerticalTree :: "dashboard \<Rightarrow> dashboard" where
  "createVerticalTree d =
     (case treeData d of
        None \<Rightarrow> showError ''No capability data available'' d
      | Some t \<Rightarrow> if length t = 0 then showError ''No capability data available'' d
                  else emit RenderTree d)"

text \<open>
  \<^verbatim>\<open>serializeControlSelections\<close> collects the controls of the active capabilities in
  a \<^verbatim>\<open>Map\<close> keyed by control id. A \<^verbatim>\<open>Map\<close> keeps insertion order, so it is a list of
  key-value pairs; an entry that exists is changed in place
  (\<^verbatim>\<open>existing.is_active = true\<close>).
\<close>

definition markActive ::
  "ident \<Rightarrow> (ident \<times> control_selection) list \<Rightarrow> (ident \<times> control_selection) list" where
  "markActive key m =
     map (\<lambda>(k, v). if k = key then (k, v\<lparr>csel_is_active := True\<rparr>) else (k, v)) m"

definition visitControl ::
  "dashboard \<Rightarrow> control \<Rightarrow> (ident \<times> control_selection) list \<Rightarrow> (ident \<times> control_selection) list" where
  "visitControl d c m =
     (if truthy (control_id c) then
        (case map_of m (control_id c) of
           None \<Rightarrow>
             m @ [(control_id c,
                   \<lparr>csel_control_id = control_id c,
                    csel_is_active = set_has (activeControls d) (control_id c)\<rparr>)]
         | Some existing \<Rightarrow>
             (let isActive = set_has (activeControls d) (control_id c)
              in if isActive \<and> \<not> csel_is_active existing then markActive (control_id c) m
                 else m))
      else m)"

definition visitCapability ::
  "dashboard \<Rightarrow> capability list \<Rightarrow> ident \<Rightarrow> (ident \<times> control_selection) list \<Rightarrow> (ident \<times> control_selection) list" where
  "visitCapability d t capabilityId m =
     (case find (\<lambda>cap. capability_id cap = capabilityId) t of
        None \<Rightarrow> m
      | Some cap \<Rightarrow>
          (case controls cap of
             None \<Rightarrow> m
           | Some cs \<Rightarrow> fold (visitControl d) cs m))"

definition serializeControlSelections :: "dashboard \<Rightarrow> control_selection list" where
  "serializeControlSelections d =
     (case treeData d of
        None \<Rightarrow> []
      | Some t \<Rightarrow> map snd (fold (visitCapability d t) (activeCapabilities d) []))"

text \<open>
  \<^verbatim>\<open>serializeSelections\<close> (class \<^verbatim>\<open>DashboardScenarios\<close>): one entry for each element of
  the tree; without tree data both lists are empty.
\<close>

definition serializeSelections :: "dashboard \<Rightarrow> serialized" where
  "serializeSelections d =
     (case treeData d of
        None \<Rightarrow> \<lparr>selections = [], control_selections = []\<rparr>
      | Some t \<Rightarrow>
          \<lparr>selections =
             map (\<lambda>cap. \<lparr>sel_capability_id = capability_id cap,
                          sel_is_active = set_has (activeCapabilities d) (capability_id cap)\<rparr>) t,
           control_selections = serializeControlSelections d\<rparr>)"

section \<open>Metrics\<close>

text \<open>
  The request of \<^verbatim>\<open>recalculateMetrics\<close>. \<^verbatim>\<open>activeControlIds\<close> is \<^verbatim>\<open>null\<close> when the
  dashboard has no \<^verbatim>\<open>activeControls\<close> field, else the array of the set.
\<close>

definition requestPayload :: "ident list \<Rightarrow> ident list option \<Rightarrow> payload" where
  "requestPayload activeCapabilityIds activeControlIds =
     (let p = \<lparr>capability_ids = activeCapabilityIds, control_ids = None\<rparr>
      in case activeControlIds of
           None \<Rightarrow> p
         | Some cs \<Rightarrow> if length cs > 0 then p\<lparr>control_ids := Some cs\<rparr> else p)"

definition analysisPayload :: "dashboard \<Rightarrow> payload" where
  "analysisPayload d = requestPayload (activeCapabilities d) (Some (activeControls d))"

text \<open>
  The metric cards. The server sends numbers, on which \<^verbatim>\<open>metrics.x || 0\<close> is \<^verbatim>\<open>x\<close>.
  Each card animates the change when the previous value is known and differs, then
  stores the new value as the previous one. The writes of the text of a card are not
  modelled.
\<close>

definition updateActiveControlsCard :: "metrics \<Rightarrow> dashboard \<Rightarrow> dashboard" where
  "updateActiveControlsCard m d =
     (let v = active_controls m;
          d1 = (case prev_active_controls (previousMetrics d) of
                  None \<Rightarrow> d
                | Some previous \<Rightarrow>
                    if previous \<noteq> v then
                      (let change = v - previous
                       in emit (AnimateMetricChange ActiveControlsCard change
                                  (if change > 0 then Green else Yellow)) d)
                    else d)
      in d1\<lparr>previousMetrics := (previousMetrics d1)\<lparr>prev_active_controls := Some v\<rparr>\<rparr>)"

text \<open>The colour of a change of \<^verbatim>\<open>partially_covered_risks\<close> (the variable \<^verbatim>\<open>colorType\<close>).\<close>

definition partiallyCoveredColorType :: "int \<Rightarrow> int \<Rightarrow> int \<Rightarrow> color" where
  "partiallyCoveredColorType change exposedChange activeRisksChange =
     (if change > 0 then
        (if exposedChange < 0 then Green
         else if activeRisksChange < 0 then Yellow
         else Yellow)
      else
        (if activeRisksChange > 0 then Green
         else if exposedChange > 0 then Yellow
         else Green))"

text \<open>
  The call of \<^verbatim>\<open>animateMetricChange\<close> for the partially-covered card, if there is one:
  its change and its colour. The three previous values are those read before any card
  of this recomputation stored a new one.
\<close>

definition partiallyCoveredChange ::
  "int option \<Rightarrow> int option \<Rightarrow> int option \<Rightarrow> metrics \<Rightarrow> (int \<times> color) option" where
  "partiallyCoveredChange prevPartially prevExposed prevActiveRisks m =
     (let v = partially_covered_risks m
      in case prevPartially of
           None \<Rightarrow> None
         | Some previous \<Rightarrow>
             if previous \<noteq> v then
               (let change = v - previous;
                    newExposed = exposed_risks m;
                    newActiveRisks = active_risks m;
                    exposedChange = (case prevExposed of Some e \<Rightarrow> newExposed - e | None \<Rightarrow> 0);
                    activeRisksChange =
                      (case prevActiveRisks of Some a \<Rightarrow> newActiveRisks - a | None \<Rightarrow> 0)
                in Some (change, partiallyCoveredColorType change exposedChange activeRisksChange))
             else None)"

definition updatePartiallyCoveredCard ::
  "int option \<Rightarrow> int option \<Rightarrow> int option \<Rightarrow> metrics \<Rightarrow> dashboard \<Rightarrow> dashboard" where
  "updatePartiallyCoveredCard prevPartially prevExposed prevActiveRisks m d =
     (let d1 = (case partiallyCoveredChange prevPartially prevExposed prevActiveRisks m of
                  None \<Rightarrow> d
                | Some (change, colorType) \<Rightarrow>
                    emit (AnimateMetricChange PartiallyCoveredCard change colorType) d)
      in d1\<lparr>previousMetrics :=
              (previousMetrics d1)\<lparr>prev_partially_covered_risks := Some (partially_covered_risks m)\<rparr>\<rparr>)"

definition updateExposedRisksCard :: "int option \<Rightarrow> metrics \<Rightarrow> dashboard \<Rightarrow> dashboard" where
  "updateExposedRisksCard prevExposed m d =
     (let v = exposed_risks m;
          d1 = (case prevExposed of
                  None \<Rightarrow> d
                | Some previous \<Rightarrow>
                    if previous \<noteq> v then
                      (let change = v - previous
                       in emit (AnimateMetricChange ExposedRisksCard change
                                  (if change > 0 then Red else Green)) d)
                    else d)
      in d1\<lparr>previousMetrics := (previousMetrics d1)\<lparr>prev_exposed_risks := Some v\<rparr>\<rparr>)"

record metric_changes =
  hasChanges :: bool
  ch_active_controls :: int
  ch_exposed_risks :: int
  ch_partially_covered_risks :: int
  ch_active_risks :: int

definition or0 :: "int option \<Rightarrow> int" where
  "or0 x = (case x of None \<Rightarrow> 0 | Some v \<Rightarrow> v)"

definition calculateMetricChanges :: "metrics \<Rightarrow> dashboard \<Rightarrow> metric_changes" where
  "calculateMetricChanges newMetrics d =
     (let pm = previousMetrics d;
          a = active_controls newMetrics - or0 (prev_active_controls pm);
          e = exposed_risks newMetrics - or0 (prev_exposed_risks pm);
          p = partially_covered_risks newMetrics - or0 (prev_partially_covered_risks pm);
          r = active_risks newMetrics - or0 (prev_active_risks pm)
      in \<lparr>hasChanges = (a \<noteq> 0 \<or> e \<noteq> 0 \<or> p \<noteq> 0 \<or> r \<noteq> 0),
          ch_active_controls = a, ch_exposed_risks = e,
          ch_partially_covered_risks = p, ch_active_risks = r\<rparr>)"

definition signed :: "int \<Rightarrow> string" where
  "signed x = (if x > 0 then ''+'' else []) @ show_int x"

fun join :: "string \<Rightarrow> string list \<Rightarrow> string" where
  "join sep [] = []"
| "join sep [x] = x"
| "join sep (x # y # ys) = x @ sep @ join sep (y # ys)"

definition showMetricChangeSummary :: "metric_changes \<Rightarrow> dashboard \<Rightarrow> dashboard" where
  "showMetricChangeSummary changes d =
     (if \<not> hasChanges changes then d
      else
        (let parts =
               (if ch_active_controls changes \<noteq> 0
                then [signed (ch_active_controls changes) @ '' controls''] else []) @
               (if ch_exposed_risks changes \<noteq> 0
                then [signed (ch_exposed_risks changes) @ '' exposed risks''] else []) @
               (if ch_partially_covered_risks changes \<noteq> 0
                then [signed (ch_partially_covered_risks changes) @ '' partial risks''] else []) @
               (if ch_active_risks changes \<noteq> 0
                then [signed (ch_active_risks changes) @ '' covered risks''] else [])
         in if length parts > 0
            then showStatusMessage (''Metrics updated: '' @ join '', '' parts) Info d
            else d))"

text \<open>
  \<^verbatim>\<open>recalculateMetrics\<close>: sends the request; when the fetch fails or the answer is not
  OK it reports \<^verbatim>\<open>Could not update metrics.\<close> and leaves the cards alone. The lookup
  of capabilities with unique controls that it starts at the end only changes the
  highlighting of the tree and is not modelled.
\<close>

definition recalculateMetrics :: "world \<Rightarrow> dashboard \<Rightarrow> dashboard" where
  "recalculateMetrics w d =
     (let d0 = emit (PostCapabilityAnalysis (analysisPayload d)) d
      in case capability_analysis_reply w of
           None \<Rightarrow> showError ''Could not update metrics.'' d0
         | Some m \<Rightarrow>
             (let d1 = (if activeControlsEl (document w) then updateActiveControlsCard m d0 else d0);
                  prevExposed = prev_exposed_risks (previousMetrics d1);
                  prevActiveRisks = prev_active_risks (previousMetrics d1);
                  prevPartially = prev_partially_covered_risks (previousMetrics d1);
                  d2 = (if partiallyCoveredEl (document w)
                        then updatePartiallyCoveredCard prevPartially prevExposed prevActiveRisks m d1
                        else d1);
                  d3 = (if exposedRisksEl (document w) then updateExposedRisksCard prevExposed m d2 else d2);
                  d4 = d3\<lparr>previousMetrics :=
                            (previousMetrics d3)\<lparr>prev_active_risks := Some (active_risks m)\<rparr>\<rparr>
              in if prev_active_controls (previousMetrics d4) \<noteq> None then
                   (let changes = calculateMetricChanges m d4
                    in if hasChanges changes then showMetricChangeSummary changes d4 else d4)
                 else d4))"

section \<open>Toggling a capability\<close>

text \<open>
  \<^verbatim>\<open>toggleCapability\<close> (class \<^verbatim>\<open>DashboardTreeRenderer\<close>). The capability object comes
  from the tree; one without a usable id is rejected before anything changes.
\<close>

definition scheduleAutoSave :: "dashboard \<Rightarrow> dashboard" where
  "scheduleAutoSave d = (updateSaveStatus Unsaved d)\<lparr>autoSaveTimer := True\<rparr>"

definition toggleCapability :: "world \<Rightarrow> capability \<Rightarrow> dashboard \<Rightarrow> dashboard" where
  "toggleCapability w cap d =
     (if \<not> truthy (capability_id cap) then d
      else
        (let wasActive = set_has (activeCapabilities d) (capability_id cap);
             d1 = (if wasActive then
                     d\<lparr>activeCapabilities := set_delete (capability_id cap) (activeCapabilities d),
                       activeControls :=
                         (case controls cap of
                            None \<Rightarrow> activeControls d
                          | Some cs \<Rightarrow> fold (\<lambda>c s. set_delete (control_id c) s) cs (activeControls d))\<rparr>
                   else
                     d\<lparr>activeCapabilities := set_add (capability_id cap) (activeCapabilities d),
                       activeControls :=
                         (case controls cap of
                            None \<Rightarrow> activeControls d
                          | Some cs \<Rightarrow> fold (\<lambda>c s. set_add (control_id c) s) cs (activeControls d))\<rparr>);
             d2 = createVerticalTree d1;
             d3 = recalculateMetrics w d2;
             d4 = updateSaveStatus Unsaved d3
         in scheduleAutoSave d4))"

section \<open>Draft manager\<close>

text \<open>The storage key: \<^verbatim>\<open>this.userId || 0\<close> printed after a fixed prefix.\<close>

definition getDraftKey :: "ident \<Rightarrow> string" where
  "getDraftKey uid_field =
     (let uid = (if truthy uid_field then uid_field else Num 0)
      in ''capabilityWorksheetDraft:v1:user:'' @ show_ident uid)"

text \<open>\<^verbatim>\<open>JSON.stringify\<close> writes an \<^verbatim>\<open>undefined\<close> array element as \<^verbatim>\<open>null\<close>.\<close>

fun json_ident :: "ident \<Rightarrow> ident" where
  "json_ident Undefined = Null"
| "json_ident i = i"

text \<open>
  \<^verbatim>\<open>DraftManager.persistDraft\<close> returns whether the write went through;
  \<^verbatim>\<open>DraftManager.clearDraft\<close> swallows a failure.
\<close>

definition draft_persistDraft ::
  "string \<Rightarrow> ident \<Rightarrow> ident list \<Rightarrow> ident list \<Rightarrow> storage \<Rightarrow> bool \<times> storage" where
  "draft_persistDraft timestamp uid caps ctls st =
     (let data = \<lparr>draft_activeCapabilityIds = map json_ident caps,
                  draft_activeControlIds = map json_ident ctls,
                  draft_updatedAt = timestamp\<rparr>
      in if mode st = Available
         then (True, st\<lparr>items := (items st)(getDraftKey uid \<mapsto> data)\<rparr>)
         else (False, st))"

definition draft_clearDraft :: "ident \<Rightarrow> storage \<Rightarrow> storage" where
  "draft_clearDraft uid st =
     (if mode st = Denied then st
      else st\<lparr>items := (items st)(getDraftKey uid := None)\<rparr>)"

section \<open>Scenario manager\<close>

text \<open>
  The methods of \<^verbatim>\<open>ScenarioManager\<close> return the requests they sent, their result
  (\<open>Inl\<close> the message of the error they throw) and the manager as they leave it.
\<close>

definition new_ScenarioManager :: "ident \<Rightarrow> scenario_manager" where
  "new_ScenarioManager uid = \<lparr>sm_userId = uid, sm_scenarios = [], sm_currentScenarioId = Null\<rparr>"

definition sm_loadScenarios ::
  "world \<Rightarrow> scenario_manager \<Rightarrow> event list \<times> (string + scenario list) \<times> scenario_manager" where
  "sm_loadScenarios w sm =
     (case get_scenarios_reply w of
        Inl message \<Rightarrow> ([GetScenarios (sm_userId sm)], Inl message, sm)
      | Inr l \<Rightarrow> ([GetScenarios (sm_userId sm)], Inr l, sm\<lparr>sm_scenarios := l\<rparr>))"

definition sm_loadScenario ::
  "world \<Rightarrow> ident \<Rightarrow> scenario_manager \<Rightarrow> event list \<times> (string + scenario option) \<times> scenario_manager" where
  "sm_loadScenario w scenarioId sm =
     (if \<not> truthy scenarioId then ([], Inr None, sm\<lparr>sm_currentScenarioId := Null\<rparr>)
      else
        (case get_scenario_reply w of
           Inl message \<Rightarrow> ([GetScenario scenarioId], Inl message, sm)
         | Inr sc \<Rightarrow> ([GetScenario scenarioId], Inr (Some sc), sm\<lparr>sm_currentScenarioId := scenarioId\<rparr>)))"

definition sm_updateScenario ::
  "world \<Rightarrow> ident \<Rightarrow> serialized \<Rightarrow> event list \<times> (string + unit)" where
  "sm_updateScenario w scenarioId body = ([PutScenario scenarioId body], put_scenario_reply w)"

definition sm_deleteScenario ::
  "world \<Rightarrow> ident \<Rightarrow> scenario_manager \<Rightarrow> event list \<times> (string + unit) \<times> scenario_manager" where
  "sm_deleteScenario w scenarioId sm =
     (case delete_scenario_reply w of
        Inl message \<Rightarrow> ([DeleteScenario scenarioId], Inl message, sm)
      | Inr _ \<Rightarrow>
          (let sm1 = (if sm_currentScenarioId sm = scenarioId
                      then sm\<lparr>sm_currentScenarioId := Null\<rparr> else sm)
           in case sm_loadScenarios w sm1 of
                (evs, Inl message, sm2) \<Rightarrow> (DeleteScenario scenarioId # evs, Inl message, sm2)
              | (evs, Inr _, sm2) \<Rightarrow> (DeleteScenario scenarioId # evs, Inr (), sm2)))"

definition getScenario :: "scenario_manager \<Rightarrow> ident \<Rightarrow> scenario option" where
  "getScenario sm scenarioId = find (\<lambda>s. scenario_id s = scenarioId) (sm_scenarios sm)"

section \<open>Worksheet controller\<close>

text \<open>
  The methods of \<^verbatim>\<open>DashboardScenarios\<close>. Updates of buttons, of the scenario selector
  and of the debug panel only write to the page and are left out.
\<close>

definition persistDraft :: "world \<Rightarrow> dashboard \<Rightarrow> dashboard" where
  "persistDraft w d =
     (case draft_persistDraft (now w) (draftManager_userId d)
             (activeCapabilities d) (activeControls d) (localStorage d) of
        (success, st) \<Rightarrow>
          updateSaveStatus (if success then Saved else SaveError) (d\<lparr>localStorage := st\<rparr>))"

definition clearDraft :: "dashboard \<Rightarrow> dashboard" where
  "clearDraft d = d\<lparr>localStorage := draft_clearDraft (draftManager_userId d) (localStorage d)\<rparr>"

text \<open>\<^verbatim>\<open>error.message || fallback\<close>\<close>

definition message_or :: "string \<Rightarrow> string \<Rightarrow> string" where
  "message_or message fallback = (if message \<noteq> [] then message else fallback)"

text \<open>
  The warning of \<^verbatim>\<open>saveScenario\<close>; its ellipsis is one character outside ASCII, given
  here by the three bytes of its UTF-8 form.
\<close>

definition noWorksheetSelected :: string where
  "noWorksheetSelected =
     ''No worksheet selected. Use Save As'' @ [char_of (226::nat), char_of (128::nat), char_of (166::nat)] @
     '' to name and save, or continue editing to keep a local draft.''"

definition saveScenario :: "world \<Rightarrow> dashboard \<Rightarrow> dashboard" where
  "saveScenario w d =
     (let unbound = persistDraft w (showStatusMessage noWorksheetSelected Warning d)
      in case scenarioManager d of
           None \<Rightarrow> unbound
         | Some sm \<Rightarrow>
             if \<not> truthy (sm_currentScenarioId sm) then unbound
             else
               (let d1 = updateSaveStatus Saving d;
                    body = serializeSelections d1
                in case sm_updateScenario w (sm_currentScenarioId sm) body of
                     (evs, Inr _) \<Rightarrow>
                       clearDraft
                         (showStatusMessage ''Scenario saved successfully'' Success
                            (updateSaveStatus Saved (d1\<lparr>events := events d1 @ evs\<rparr>)))
                   | (evs, Inl message) \<Rightarrow>
                       showStatusMessage (message_or message ''Error saving scenario'') Error
                         (updateSaveStatus SaveError (d1\<lparr>events := events d1 @ evs\<rparr>))))"

definition deleteScenario :: "world \<Rightarrow> dashboard \<Rightarrow> dashboard" where
  "deleteScenario w d =
     (let nothing = showStatusMessage ''No scenario selected to delete'' Warning d
      in case scenarioManager d of
           None \<Rightarrow> nothing
         | Some sm \<Rightarrow>
             if \<not> truthy (sm_currentScenarioId sm) then nothing
             else
               (let scenarioName =
                      (case getScenario sm (sm_currentScenarioId sm) of
                         Some sc \<Rightarrow> scenario_name sc
                       | None \<Rightarrow> ''this scenario'');
                    d1 = emit (Confirm (''Are you sure you want to delete '' @ [char_of (34::nat)] @
                                 scenarioName @ [char_of (34::nat)] @
                                 ''? This action cannot be undone.'')) d
                in if \<not> confirm_answer w then d1
                   else
                     (case sm_deleteScenario w (sm_currentScenarioId sm) sm of
                        (evs, Inl message, sm1) \<Rightarrow>
                          showStatusMessage (message_or message ''Error deleting scenario'') Error
                            (d1\<lparr>scenarioManager := Some sm1, events := events d1 @ evs\<rparr>)
                      | (evs, Inr _, sm1) \<Rightarrow>
                          (let d2 = d1\<lparr>scenarioManager := Some sm1, events := events d1 @ evs\<rparr>;
                               d3 = d2\<lparr>activeCapabilities := []\<rparr>;
                               d4 = createVerticalTree d3;
                               d5 = recalculateMetrics w d4;
                               d6 = updateSaveStatus StatusNone d5;
                               d7 = showStatusMessage (''Deleted scenario: '' @ scenarioName) Success d6;
                               d8 = clearDraft d7
                           in d8\<lparr>scenarioManager := Some (sm1\<lparr>sm_currentScenarioId := Null\<rparr>),
                                 currentScenarioId := Null\<rparr>))))"

text \<open>\<^verbatim>\<open>fetchUserId\<close> rejects an answer without a user id.\<close>

definition fetchUserId :: "world \<Rightarrow> string + ident" where
  "fetchUserId w =
     (case current_user_reply w of
        Inl message \<Rightarrow> Inl message
      | Inr uid \<Rightarrow> if \<not> truthy uid then Inl ''User ID not found in response'' else Inr uid)"

text \<open>
  The two ways \<^verbatim>\<open>loadScenario\<close> fills \<^verbatim>\<open>activeControls\<close>: from the control selections
  of the scenario, or with every control of every active capability found in the tree.
\<close>

definition restoreControlSelections :: "control_selection list \<Rightarrow> ident list \<Rightarrow> ident list" where
  "restoreControlSelections cs s =
     fold (\<lambda>controlSelection s.
             if csel_is_active controlSelection
             then set_add (csel_control_id controlSelection) s else s) cs s"

definition defaultControls :: "capability list \<Rightarrow> ident list \<Rightarrow> ident list \<Rightarrow> ident list" where
  "defaultControls t caps s =
     fold (\<lambda>capabilityId s.
             case find (\<lambda>cap. capability_id cap = capabilityId) t of
               None \<Rightarrow> s
             | Some cap \<Rightarrow>
                 (case controls cap of
                    None \<Rightarrow> s
                  | Some cs \<Rightarrow> fold (\<lambda>c s. set_add (control_id c) s) cs s)) caps s"

definition applyScenario :: "world \<Rightarrow> ident \<Rightarrow> scenario \<Rightarrow> dashboard \<Rightarrow> dashboard" where
  "applyScenario w scenarioId sc d =
     (let d1 = d\<lparr>currentScenarioId := scenarioId\<rparr>;
          d2 = d1\<lparr>activeCapabilities :=
                   fold (\<lambda>sel s. if sel_is_active sel then set_add (sel_capability_id sel) s else s)
                     (scn_selections sc) []\<rparr>;
          d3 = d2\<lparr>activeControls := []\<rparr>;
          d4 = (case treeData d3 of
                  Some t \<Rightarrow> d3
                | None \<Rightarrow>
                    (let d3a = emit GetCapabilityTree d3
                     in case capability_tree_reply w of
                          Some t \<Rightarrow> d3a\<lparr>treeData := Some t\<rparr>
                        | None \<Rightarrow> d3a));
          useSaved = (case scn_control_selections sc of None \<Rightarrow> False | Some cs \<Rightarrow> length cs > 0);
          d5 = (if useSaved then
                  d4\<lparr>activeControls :=
                       restoreControlSelections
                         (case scn_control_selections sc of None \<Rightarrow> [] | Some cs \<Rightarrow> cs)
                         (activeControls d4)\<rparr>
                else
                  (case treeData d4 of
                     None \<Rightarrow> d4
                   | Some t \<Rightarrow>
                       d4\<lparr>activeControls :=
                            defaultControls t (activeCapabilities d4) (activeControls d4)\<rparr>));
          d6 = createVerticalTree d5;
          d7 = recalculateMetrics w d6;
          d8 = updateSaveStatus Saved d7
      in showStatusMessage (''Loaded scenario: '' @ scenario_name sc) Success d8)"

definition loadScenario :: "world \<Rightarrow> ident \<Rightarrow> dashboard \<Rightarrow> dashboard" where
  "loadScenario w scenarioId d =
     (let known = (if \<not> truthy (userId d)
                   then (case fetchUserId w of
                           Inl message \<Rightarrow> Inl (message, emit GetCurrentUser d)
                         | Inr uid \<Rightarrow> Inr ((emit GetCurrentUser d)\<lparr>userId := uid\<rparr>))
                   else Inr d)
      in case known of
           Inl (message, d0) \<Rightarrow> showStatusMessage (message_or message ''Authentication required'') Error d0
         | Inr d0 \<Rightarrow>
             (let sm = (case scenarioManager d0 of
                          None \<Rightarrow> new_ScenarioManager (userId d0)
                        | Some sm \<Rightarrow> sm)
              in if \<not> truthy scenarioId then
                   (let d1 = d0\<lparr>scenarioManager := Some (sm\<lparr>sm_currentScenarioId := Null\<rparr>),
                               currentScenarioId := Null,
                               activeCapabilities := [],
                               activeControls := []\<rparr>;
                        d2 = createVerticalTree d1;
                        d3 = recalculateMetrics w d2
                    in updateSaveStatus StatusNone d3)
                 else
                   (case sm_loadScenario w scenarioId sm of
                      (evs, Inl message, sm1) \<Rightarrow>
                        showStatusMessage ''Error loading scenario'' Error
                          (d0\<lparr>scenarioManager := Some sm1, events := events d0 @ evs\<rparr>)
                    | (evs, Inr None, sm1) \<Rightarrow>
                        showStatusMessage ''Error loading scenario'' Error
                          (d0\<lparr>scenarioManager := Some sm1, events := events d0 @ evs\<rparr>)
                    | (evs, Inr (Some sc), sm1) \<Rightarrow>
                        applyScenario w scenarioId sc
                          (d0\<lparr>scenarioManager := Some (sm1\<lparr>sm_currentScenarioId := scenarioId\<rparr>),
                              events := events d0 @ evs\<rparr>))))"

section \<open>A small worksheet\<close>

text \<open>
  Three capabilities: two share a control, the third has none. The dashboard below is
  the one reached by activating all of them; it is used to run the operations on
  concrete data.
\<close>

definition ex_ctl1 :: control where
  "ex_ctl1 = \<lparr>control_id = Str ''CTL-1'', control_title = ''Access review''\<rparr>"

definition ex_ctl2 :: control where
  "ex_ctl2 = \<lparr>control_id = Str ''CTL-2'', control_title = ''Model monitoring''\<rparr>"

definition ex_ctlShared :: control where
  "ex_ctlShared = \<lparr>control_id = Str ''CTL-S'', control_title = ''Audit logging''\<rparr>"

definition ex_capA :: capability where
  "ex_capA = \<lparr>capability_id = Str ''A'', capability_name = ''Identity'',
              controls = Some [ex_ctl1, ex_ctlShared]\<rparr>"

definition ex_capB :: capability where
  "ex_capB = \<lparr>capability_id = Str ''B'', capability_name = ''Observability'',
              controls = Some [ex_ctlShared, ex_ctl2]\<rparr>"

definition ex_capZ :: capability where
  "ex_capZ = \<lparr>capability_id = Str ''Z'', capability_name = ''Governance'', controls = Some []\<rparr>"

definition ex_tree :: "capability list" where
  "ex_tree = [ex_capA, ex_capB, ex_capZ]"

definition ex_dashboard :: dashboard where
  "ex_dashboard =
     \<lparr>activeCapabilities = [Str ''A'', Str ''B'', Str ''Z''],
      activeControls = [Str ''CTL-1'', Str ''CTL-S'', Str ''CTL-2''],
      treeData = Some ex_tree,
      previousMetrics = \<lparr>prev_active_controls = None, prev_exposed_risks = None,
                          prev_partially_covered_risks = None, prev_active_risks = None\<rparr>,
      userId = Num 1,
      scenarioManager = None,
      draftManager_userId = Num 1,
      currentScenarioId = Null,
      autoSaveTimer = False,
      localStorage = \<lparr>items = Map.empty, mode = Available\<rparr>,
      events = []\<rparr>"

definition ex_metrics :: metrics where
  "ex_metrics = \<lparr>total_controls = 3, controls_in_capabilities = 3, active_controls = 3,
                 active_risks = 4, partially_covered_risks = 1, exposed_risks = 0\<rparr>"

definition ex_scenario :: scenario where
  "ex_scenario =
     \<lparr>scenario_id = Num 7, scenario_name = ''Baseline'', is_default = False,
      scn_selections = [\<lparr>sel_capability_id = Str ''A'', sel_is_active = True\<rparr>,
                        \<lparr>sel_capability_id = Str ''B'', sel_is_active = False\<rparr>,
                        \<lparr>sel_capability_id = Str ''Z'', sel_is_active = False\<rparr>],
      scn_control_selections = Some [\<lparr>csel_control_id = Str ''CTL-1'', csel_is_active = True\<rparr>,
                                     \<lparr>csel_control_id = Str ''CTL-S'', csel_is_active = False\<rparr>]\<rparr>"

text \<open>A world in which every request succeeds and the user confirms.\<close>

definition ex_world :: world where
  "ex_world =
     \<lparr>document = \<lparr>activeControlsEl = True, partiallyCoveredEl = True, exposedRisksEl = True\<rparr>,
      confirm_answer = True,
      now = ''2024-05-01T09:30:00.000Z'',
      current_user_reply = Inr (Num 1),
      capability_tree_reply = Some ex_tree,
      capability_analysis_reply = Some ex_metrics,
      get_scenarios_reply = Inr [],
      get_scenario_reply = Inr ex_scenario,
      put_scenario_reply = Inr (),
      delete_scenario_reply = Inr ()\<rparr>"

text \<open>The same dashboard with scenario 7 bound and an older draft in local storage.\<close>

definition ex_draft :: draft where
  "ex_draft = \<lparr>draft_activeCapabilityIds = [Str ''Z''], draft_activeControlIds = [],
               draft_updatedAt = ''2024-04-30T17:00:00.000Z''\<rparr>"

definition ex_bound :: dashboard where
  "ex_bound =
     ex_dashboard
       \<lparr>scenarioManager :=
          Some \<lparr>sm_userId = Num 1, sm_scenarios = [ex_scenario], sm_currentScenarioId = Num 7\<rparr>,
        currentScenarioId := Num 7,
        localStorage := \<lparr>items = [getDraftKey (Num 1) \<mapsto> ex_draft], mode = Available\<rparr>\<rparr>"

section \<open>Notions used to state the properties\<close>

text \<open>The requests for metrics among a list of events, and the scenario updates.\<close>

fun analysisRequests :: "event list \<Rightarrow> payload list" where
  "analysisRequests [] = []"
| "analysisRequests (PostCapabilityAnalysis p # es) = p # analysisRequests es"
| "analysisRequests (e # es) = analysisRequests es"

fun scenarioUpdates :: "event list \<Rightarrow> (ident \<times> serialized) list" where
  "scenarioUpdates [] = []"
| "scenarioUpdates (PutScenario i b # es) = (i, b) # scenarioUpdates es"
| "scenarioUpdates (e # es) = scenarioUpdates es"

text \<open>
  Whether a scenario is bound: the test \<^verbatim>\<open>this.scenarioManager &&
  this.scenarioManager.getCurrentScenarioId()\<close> that guards saving and deleting.
\<close>

definition hasScenario :: "dashboard \<Rightarrow> bool" where
  "hasScenario d =
     (case scenarioManager d of None \<Rightarrow> False | Some sm \<Rightarrow> truthy (sm_currentScenarioId sm))"

text \<open>
  The control ids listed under the tree entry that \<^verbatim>\<open>find\<close> returns for a capability
  id.
\<close>

definition controlsUnder :: "capability list \<Rightarrow> ident \<Rightarrow> ident set" where
  "controlsUnder t capabilityId =
     (case find (\<lambda>cap. capability_id cap = capabilityId) t of
        None \<Rightarrow> {}
      | Some cap \<Rightarrow> control_id ` set (controlsOrEmpty cap))"

text \<open>The tree that \<^verbatim>\<open>loadScenario\<close> works with: the one loaded, else the one it fetches.\<close>

definition treeAfterLoad :: "world \<Rightarrow> dashboard \<Rightarrow> capability list option" where
  "treeAfterLoad w d = (case treeData d of Some t \<Rightarrow> Some t | None \<Rightarrow> capability_tree_reply w)"

text \<open>The animations of the partially-covered card among a list of events.\<close>

fun partialAnimations :: "event list \<Rightarrow> (int \<times> color) list" where
  "partialAnimations [] = []"
| "partialAnimations (AnimateMetricChange PartiallyCoveredCard change colorType # es) =
     (change, colorType) # partialAnimations es"
| "partialAnimations (e # es) = partialAnimations es"

text \<open>
  A dashboard that has shown metrics before: 5 partially covered, 2 exposed and 3 fully
  covered risks.
\<close>

definition ex_shown :: dashboard where
  "ex_shown =
     ex_dashboard
       \<lparr>previousMetrics :=
          \<lparr>prev_active_controls = Some 3, prev_exposed_risks = Some 2,
           prev_partially_covered_risks = Some 5, prev_active_risks = Some 3\<rparr>\<rparr>"

text \<open>
  The control ids that \<^verbatim>\<open>serializeControlSelections\<close> reaches through one active
  capability id: those of the tree entry that \<^verbatim>\<open>find\<close> returns for it, without the ids
  that the code rejects as invalid.
\<close>

definition controlsVia :: "capability list \<Rightarrow> ident \<Rightarrow> ident set" where
  "controlsVia t capabilityId =
     (case find (\<lambda>cap. capability_id cap = capabilityId) t of
        None \<Rightarrow> {}
      | Some cap \<Rightarrow> {k. truthy k \<and> k \<in> control_id ` set (controlsOrEmpty cap)})"

text \<open>
  What holds of the \<^verbatim>\<open>Map\<close> all along \<^verbatim>\<open>serializeControlSelections\<close>: no key twice,
  every entry filed under its own control id, and flagged active exactly when that id
  is in \<open>activeControls\<close>.
\<close>

definition selections_ok :: "dashboard \<Rightarrow> (ident \<times> control_selection) list \<Rightarrow> bool" where
  "selections_ok d m =
     (distinct (map fst m) \<and>
      (\<forall>k v. (k, v) \<in> set m \<longrightarrow>
         csel_control_id v = k \<and> csel_is_active v = (k \<in> set (activeControls d))))"

text \<open>
  The tie-break table for the colour of a change of \<^verbatim>\<open>partially_covered_risks\<close> in the
  words of the specification, to be compared with \<open>partiallyCoveredColorType\<close>: green
  when the count went up while exposed risks went down, yellow when it went up while
  fully covered risks went down, and for every other combination yellow on an increase
  and green on a decrease.
\<close>

definition spec_partiallyCoveredColor :: "int \<Rightarrow> int \<Rightarrow> int \<Rightarrow> color" where
  "spec_partiallyCoveredColor change exposedChange activeRisksChange =
     (if change > 0 \<and> exposedChange < 0 then Green
      else if change > 0 \<and> activeRisksChange < 0 then Yellow
      else if change > 0 then Yellow
      else Green)"

section \<open>Properties of the activation status\<close>

lemmas ex_defs = ex_ctl1_def ex_ctl2_def ex_ctlShared_def ex_capA_def ex_capB_def ex_capZ_def
  ex_tree_def ex_dashboard_def

lemma length_filter_all:
  "(length (filter P xs) = length xs) = (\<forall>x \<in> set xs. P x)"
proof (induction xs)
  case Nil
  show ?case by simp
next
  case (Cons x xs)
  have "length (filter P xs) \<noteq> Suc (length xs)"
    using length_filter_le [of P xs] by arith
  with Cons show ?case by auto
qed

lemma computeStatus_char:
  "(computeStatus d cap = Inactive) = (capability_id cap \<notin> set (activeCapabilities d))"
  "(computeStatus d cap = FullyActive) =
      (capability_id cap \<in> set (activeCapabilities d) \<and> controlsOrEmpty cap \<noteq> [] \<and>
       (\<forall>c \<in> set (controlsOrEmpty cap). control_id c \<in> set (activeControls d)))"
  "(computeStatus d cap = PartiallyActive) =
      (capability_id cap \<in> set (activeCapabilities d) \<and>
       (controlsOrEmpty cap = [] \<or>
        (\<exists>c \<in> set (controlsOrEmpty cap). control_id c \<notin> set (activeControls d))))"
  "computeStatus d cap \<noteq> Active"
  by (auto simp: computeStatus_def capabilityFlags_def set_has_def Let_def length_filter_all)

text \<open>
  Claim C6. The status derived for a capability is inactive exactly when its id is not
  in \<open>activeCapabilities\<close>; fully-active exactly when it is active, has at least one
  control and every one of its controls is in \<open>activeControls\<close>; partially-active in
  every other active case, that is when it has no control or when some control of it is
  missing from \<open>activeControls\<close> (all of them missing included). The fourth class of
  the box, plain active, never comes out.
\<close>

theorem computeStatus_cases:
  "(computeStatus d cap = Inactive) = (capability_id cap \<notin> set (activeCapabilities d)) \<and>
   (computeStatus d cap = FullyActive) =
      (capability_id cap \<in> set (activeCapabilities d) \<and> controlsOrEmpty cap \<noteq> [] \<and>
       (\<forall>c \<in> set (controlsOrEmpty cap). control_id c \<in> set (activeControls d))) \<and>
   (computeStatus d cap = PartiallyActive) =
      (capability_id cap \<in> set (activeCapabilities d) \<and>
       (controlsOrEmpty cap = [] \<or>
        (\<exists>c \<in> set (controlsOrEmpty cap). control_id c \<notin> set (activeControls d)))) \<and>
   computeStatus d cap \<noteq> Active"
  by (intro conjI computeStatus_char)

theorem computeStatus_cases_witness:
  "computeStatus ex_dashboard ex_capA = FullyActive \<and>
   computeStatus ex_dashboard ex_capZ = PartiallyActive \<and>
   computeStatus (ex_dashboard\<lparr>activeControls := [Str ''CTL-2'']\<rparr>) ex_capA = PartiallyActive \<and>
   computeStatus (ex_dashboard\<lparr>activeControls := [Str ''CTL-1'']\<rparr>) ex_capA = PartiallyActive \<and>
   computeStatus (ex_dashboard\<lparr>activeCapabilities := [Str ''B'']\<rparr>) ex_capA = Inactive"
  using computeStatus_cases [of ex_dashboard ex_capA]
    computeStatus_cases [of ex_dashboard ex_capZ]
    computeStatus_cases [of "ex_dashboard\<lparr>activeControls := [Str ''CTL-2'']\<rparr>" ex_capA]
    computeStatus_cases [of "ex_dashboard\<lparr>activeControls := [Str ''CTL-1'']\<rparr>" ex_capA]
    computeStatus_cases [of "ex_dashboard\<lparr>activeCapabilities := [Str ''B'']\<rparr>" ex_capA]
  by (simp add: ex_defs controlsOrEmpty_def)

section \<open>What the operations leave alone\<close>

text \<open>
  Showing a message, redrawing the tree and recomputing the metrics write the event
  list and the previous metrics only.
\<close>

lemma emit_fields [simp]:
  "activeCapabilities (emit e d) = activeCapabilities d"
  "activeControls (emit e d) = activeControls d"
  "treeData (emit e d) = treeData d"
  "previousMetrics (emit e d) = previousMetrics d"
  "scenarioManager (emit e d) = scenarioManager d"
  "currentScenarioId (emit e d) = currentScenarioId d"
  "localStorage (emit e d) = localStorage d"
  "draftManager_userId (emit e d) = draftManager_userId d"
  "events (emit e d) = events d @ [e]"
  by (simp_all add: emit_def)

lemma showStatusMessage_fields [simp]:
  "activeCapabilities (showStatusMessage s ty d) = activeCapabilities d"
  "activeControls (showStatusMessage s ty d) = activeControls d"
  "treeData (showStatusMessage s ty d) = treeData d"
  "previousMetrics (showStatusMessage s ty d) = previousMetrics d"
  "scenarioManager (showStatusMessage s ty d) = scenarioManager d"
  "currentScenarioId (showStatusMessage s ty d) = currentScenarioId d"
  "localStorage (showStatusMessage s ty d) = localStorage d"
  "draftManager_userId (showStatusMessage s ty d) = draftManager_userId d"
  "events (showStatusMessage s ty d) = events d @ [ShowStatusMessage s ty]"
  by (simp_all add: showStatusMessage_def)

lemma updateSaveStatus_fields [simp]:
  "activeCapabilities (updateSaveStatus st d) = activeCapabilities d"
  "activeControls (updateSaveStatus st d) = activeControls d"
  "treeData (updateSaveStatus st d) = treeData d"
  "previousMetrics (updateSaveStatus st d) = previousMetrics d"
  "scenarioManager (updateSaveStatus st d) = scenarioManager d"
  "currentScenarioId (updateSaveStatus st d) = currentScenarioId d"
  "localStorage (updateSaveStatus st d) = localStorage d"
  "draftManager_userId (updateSaveStatus st d) = draftManager_userId d"
  "events (updateSaveStatus st d) = events d @ [UpdateSaveStatus st]"
  by (simp_all add: updateSaveStatus_def)

lemma showError_fields [simp]:
  "activeCapabilities (showError s d) = activeCapabilities d"
  "activeControls (showError s d) = activeControls d"
  "treeData (showError s d) = treeData d"
  "previousMetrics (showError s d) = previousMetrics d"
  "scenarioManager (showError s d) = scenarioManager d"
  "currentScenarioId (showError s d) = currentScenarioId d"
  "localStorage (showError s d) = localStorage d"
  "draftManager_userId (showError s d) = draftManager_userId d"
  "events (showError s d) = events d @ [ShowError s]"
  by (simp_all add: showError_def)

lemma createVerticalTree_fields [simp]:
  "activeCapabilities (createVerticalTree d) = activeCapabilities d"
  "activeControls (createVerticalTree d) = activeControls d"
  "treeData (createVerticalTree d) = treeData d"
  "previousMetrics (createVerticalTree d) = previousMetrics d"
  "scenarioManager (createVerticalTree d) = scenarioManager d"
  "currentScenarioId (createVerticalTree d) = currentScenarioId d"
  "localStorage (createVerticalTree d) = localStorage d"
  "draftManager_userId (createVerticalTree d) = draftManager_userId d"
  by (simp_all add: createVerticalTree_def split: option.splits)

lemma updateActiveControlsCard_fields [simp]:
  "activeCapabilities (updateActiveControlsCard m d) = activeCapabilities d"
  "activeControls (updateActiveControlsCard m d) = activeControls d"
  "treeData (updateActiveControlsCard m d) = treeData d"
  "scenarioManager (updateActiveControlsCard m d) = scenarioManager d"
  "currentScenarioId (updateActiveControlsCard m d) = currentScenarioId d"
  "localStorage (updateActiveControlsCard m d) = localStorage d"
  "draftManager_userId (updateActiveControlsCard m d) = draftManager_userId d"
  by (simp_all add: updateActiveControlsCard_def Let_def split: option.splits)

lemma updatePartiallyCoveredCard_fields [simp]:
  "activeCapabilities (updatePartiallyCoveredCard p e a m d) = activeCapabilities d"
  "activeControls (updatePartiallyCoveredCard p e a m d) = activeControls d"
  "treeData (updatePartiallyCoveredCard p e a m d) = treeData d"
  "scenarioManager (updatePartiallyCoveredCard p e a m d) = scenarioManager d"
  "currentScenarioId (updatePartiallyCoveredCard p e a m d) = currentScenarioId d"
  "localStorage (updatePartiallyCoveredCard p e a m d) = localStorage d"
  "draftManager_userId (updatePartiallyCoveredCard p e a m d) = draftManager_userId d"
  by (simp_all add: updatePartiallyCoveredCard_def Let_def split: option.splits prod.splits)

lemma updateExposedRisksCard_fields [simp]:
  "activeCapabilities (updateExposedRisksCard e m d) = activeCapabilities d"
  "activeControls (updateExposedRisksCard e m d) = activeControls d"
  "treeData (updateExposedRisksCard e m d) = treeData d"
  "scenarioManager (updateExposedRisksCard e m d) = scenarioManager d"
  "currentScenarioId (updateExposedRisksCard e m d) = currentScenarioId d"
  "localStorage (updateExposedRisksCard e m d) = localStorage d"
  "draftManager_userId (updateExposedRisksCard e m d) = draftManager_userId d"
  by (simp_all add: updateExposedRisksCard_def Let_def split: option.splits)

lemma showMetricChangeSummary_fields [simp]:
  "activeCapabilities (showMetricChangeSummary c d) = activeCapabilities d"
  "activeControls (showMetricChangeSummary c d) = activeControls d"
  "treeData (showMetricChangeSummary c d) = treeData d"
  "scenarioManager (showMetricChangeSummary c d) = scenarioManager d"
  "currentScenarioId (showMetricChangeSummary c d) = currentScenarioId d"
  "localStorage (showMetricChangeSummary c d) = localStorage d"
  "draftManager_userId (showMetricChangeSummary c d) = draftManager_userId d"
  by (simp_all add: showMetricChangeSummary_def Let_def)

lemma recalculateMetrics_fields [simp]:
  "activeCapabilities (recalculateMetrics w d) = activeCapabilities d"
  "activeControls (recalculateMetrics w d) = activeControls d"
  "treeData (recalculateMetrics w d) = treeData d"
  "scenarioManager (recalculateMetrics w d) = scenarioManager d"
  "currentScenarioId (recalculateMetrics w d) = currentScenarioId d"
  "localStorage (recalculateMetrics w d) = localStorage d"
  "draftManager_userId (recalculateMetrics w d) = draftManager_userId d"
  by (simp_all add: recalculateMetrics_def Let_def split: option.splits)

lemma scheduleAutoSave_fields [simp]:
  "activeCapabilities (scheduleAutoSave d) = activeCapabilities d"
  "activeControls (scheduleAutoSave d) = activeControls d"
  "treeData (scheduleAutoSave d) = treeData d"
  "scenarioManager (scheduleAutoSave d) = scenarioManager d"
  "currentScenarioId (scheduleAutoSave d) = currentScenarioId d"
  "localStorage (scheduleAutoSave d) = localStorage d"
  "draftManager_userId (scheduleAutoSave d) = draftManager_userId d"
  by (simp_all add: scheduleAutoSave_def)

text \<open>
  The two loops of \<^verbatim>\<open>toggleCapability\<close> over the controls of a capability, and what
  a toggle does to the two sets.
\<close>

lemma set_fold_set_add:
  "set (fold (\<lambda>c s. set_add (control_id c) s) cs s) = set s \<union> control_id ` set cs"
  by (induction cs arbitrary: s) (auto simp: set_add_def)

lemma set_fold_set_delete:
  "set (fold (\<lambda>c s. set_delete (control_id c) s) cs s) = set s - control_id ` set cs"
  by (induction cs arbitrary: s) (auto simp: set_delete_def)

lemma toggleCapability_sets:
  "truthy (capability_id cap) \<Longrightarrow>
   set (activeCapabilities (toggleCapability w cap d)) =
     (if capability_id cap \<in> set (activeCapabilities d)
      then set (activeCapabilities d) - {capability_id cap}
      else insert (capability_id cap) (set (activeCapabilities d))) \<and>
   set (activeControls (toggleCapability w cap d)) =
     (if capability_id cap \<in> set (activeCapabilities d)
      then set (activeControls d) - control_id ` set (controlsOrEmpty cap)
      else set (activeControls d) \<union> control_id ` set (controlsOrEmpty cap))"
  by (auto simp: toggleCapability_def Let_def set_has_def set_add_def set_delete_def
        controlsOrEmpty_def set_fold_set_add set_fold_set_delete split: option.splits)

lemma toggleCapability_invalid:
  "\<not> truthy (capability_id cap) \<Longrightarrow> toggleCapability w cap d = d"
  by (simp add: toggleCapability_def)

section \<open>Serialising the selection\<close>

text \<open>
  Claim C3. With a tree loaded, the \<open>selections\<close> list of \<open>serializeSelections\<close> has
  one entry for each capability of the tree, in the order of the tree: its length is
  the number of capabilities, the entries carry the capability ids of the tree, and
  each entry has an explicit flag that tells whether that id is in
  \<open>activeCapabilities\<close>, false for the inactive ones. The size of the active set
  plays no part.
\<close>

theorem serializeSelections_total:
  "treeData d = Some t \<Longrightarrow>
     length (selections (serializeSelections d)) = length t \<and>
     map sel_capability_id (selections (serializeSelections d)) = map capability_id t \<and>
     map sel_is_active (selections (serializeSelections d)) =
       map (\<lambda>cap. capability_id cap \<in> set (activeCapabilities d)) t"
  by (simp add: serializeSelections_def set_has_def comp_def)

theorem serializeSelections_total_witness:
  "treeData (ex_dashboard\<lparr>activeCapabilities := [Str ''B'']\<rparr>) = Some ex_tree \<and>
   length (selections (serializeSelections (ex_dashboard\<lparr>activeCapabilities := [Str ''B'']\<rparr>))) = 3 \<and>
   map sel_capability_id
     (selections (serializeSelections (ex_dashboard\<lparr>activeCapabilities := [Str ''B'']\<rparr>))) =
     [Str ''A'', Str ''B'', Str ''Z''] \<and>
   map sel_is_active
     (selections (serializeSelections (ex_dashboard\<lparr>activeCapabilities := [Str ''B'']\<rparr>))) =
     [False, True, False]"
proof -
  have t: "treeData (ex_dashboard\<lparr>activeCapabilities := [Str ''B'']\<rparr>) = Some ex_tree"
    by (simp add: ex_dashboard_def)
  from serializeSelections_total [OF t] t show ?thesis
    by (simp add: ex_defs)
qed

lemma markActive_keys: "map fst (markActive key m) = map fst m"
  by (induction m) (auto simp: markActive_def)

lemma markActive_image: "fst ` set (markActive key m) = fst ` set m"
  using markActive_keys [of key m] by (metis set_map)

lemma markActive_ok:
  "key \<in> set (activeControls d) \<Longrightarrow> selections_ok d m \<Longrightarrow> selections_ok d (markActive key m)"
  unfolding selections_ok_def markActive_keys
  by (fastforce simp: markActive_def split: if_splits)

lemma visitControl_keys:
  "fst ` set (visitControl d c m) =
     fst ` set m \<union> (if truthy (control_id c) then {control_id c} else {})"
proof (cases "map_of m (control_id c)")
  case None
  then show ?thesis by (simp add: visitControl_def)
next
  case (Some existing)
  then have "control_id c \<in> fst ` set m" by (metis map_of_eq_None_iff option.distinct(1))
  with Some show ?thesis
    by (auto simp: visitControl_def Let_def markActive_image)
qed

lemma visitControl_ok:
  assumes "selections_ok d m"
  shows "selections_ok d (visitControl d c m)"
proof (cases "map_of m (control_id c)")
  case None
  then have "control_id c \<notin> fst ` set m" by (simp add: map_of_eq_None_iff)
  with assms None show ?thesis
    by (auto simp: visitControl_def selections_ok_def set_has_def)
next
  case (Some existing)
  with assms show ?thesis
    by (simp add: visitControl_def Let_def set_has_def markActive_ok)
qed

lemma fold_visitControl_keys:
  "fst ` set (fold (visitControl d) cs m) =
     fst ` set m \<union> {k. truthy k \<and> k \<in> control_id ` set cs}"
  by (induction cs arbitrary: m) (auto simp: visitControl_keys)

lemma fold_visitControl_ok:
  "selections_ok d m \<Longrightarrow> selections_ok d (fold (visitControl d) cs m)"
  by (induction cs arbitrary: m) (simp_all add: visitControl_ok)

lemma visitCapability_keys:
  "fst ` set (visitCapability d t capabilityId m) = fst ` set m \<union> controlsVia t capabilityId"
  by (simp add: visitCapability_def controlsVia_def controlsOrEmpty_def fold_visitControl_keys
        split: option.splits)

lemma visitCapability_ok:
  "selections_ok d m \<Longrightarrow> selections_ok d (visitCapability d t capabilityId m)"
  by (simp add: visitCapability_def fold_visitControl_ok split: option.splits)

lemma fold_visitCapability_keys:
  "fst ` set (fold (visitCapability d t) caps m) =
     fst ` set m \<union> (\<Union>capabilityId \<in> set caps. controlsVia t capabilityId)"
  by (induction caps arbitrary: m) (auto simp: visitCapability_keys)

lemma fold_visitCapability_ok:
  "selections_ok d m \<Longrightarrow> selections_ok d (fold (visitCapability d t) caps m)"
  by (induction caps arbitrary: m) (simp_all add: visitCapability_ok)

lemma selections_ok_values:
  "selections_ok d m \<Longrightarrow> map csel_control_id (map snd m) = map fst m"
  by (induction m) (auto simp: selections_ok_def)

text \<open>
  Claim C4. With a tree loaded, \<open>control_selections\<close> has no control id twice, and its
  control ids are exactly those reachable through an active capability: the ids
  listed under the tree entry of some id in \<open>activeCapabilities\<close> (ids that the code
  rejects as invalid, such as an empty one, are skipped). A control listed under
  several active capabilities therefore has one entry. The flag of an entry is true
  exactly when the control id is in \<open>activeControls\<close>; that set is shared by all
  capabilities, so a control switched on through any of its parents is reported
  active.
\<close>

theorem serializeControlSelections_reachable:
  assumes "treeData d = Some t"
  shows "distinct (map csel_control_id (serializeControlSelections d)) \<and>
     set (map csel_control_id (serializeControlSelections d)) =
       {k. truthy k \<and>
           (\<exists>capabilityId cap c. capabilityId \<in> set (activeCapabilities d) \<and>
              find (\<lambda>cap. capability_id cap = capabilityId) t = Some cap \<and>
              c \<in> set (controlsOrEmpty cap) \<and> control_id c = k)} \<and>
     (\<forall>e \<in> set (serializeControlSelections d).
        csel_is_active e = (csel_control_id e \<in> set (activeControls d)))"
proof -
  let ?m = "fold (visitCapability d t) (activeCapabilities d) []"
  have ok: "selections_ok d ?m"
    by (rule fold_visitCapability_ok) (simp add: selections_ok_def)
  have res: "serializeControlSelections d = map snd ?m"
    using assms by (simp add: serializeControlSelections_def)
  have ids: "map csel_control_id (serializeControlSelections d) = map fst ?m"
    using ok res by (simp only: selections_ok_values)
  have "distinct (map fst ?m)" using ok by (simp add: selections_ok_def)
  then have 1: "distinct (map csel_control_id (serializeControlSelections d))"
    by (simp only: ids)
  have "set (map fst ?m) = (\<Union>capabilityId \<in> set (activeCapabilities d). controlsVia t capabilityId)"
    using fold_visitCapability_keys [of d t "activeCapabilities d" "[]"] by simp
  also have "\<dots> = {k. truthy k \<and>
           (\<exists>capabilityId cap c. capabilityId \<in> set (activeCapabilities d) \<and>
              find (\<lambda>cap. capability_id cap = capabilityId) t = Some cap \<and>
              c \<in> set (controlsOrEmpty cap) \<and> control_id c = k)}"
  proof (intro set_eqI iffI)
    fix k
    assume "k \<in> (\<Union>capabilityId \<in> set (activeCapabilities d). controlsVia t capabilityId)"
    then obtain capabilityId where a: "capabilityId \<in> set (activeCapabilities d)"
      and k: "k \<in> controlsVia t capabilityId" by blast
    from k obtain cap where f: "find (\<lambda>cap. capability_id cap = capabilityId) t = Some cap"
      and "truthy k" and "k \<in> control_id ` set (controlsOrEmpty cap)"
      by (auto simp: controlsVia_def split: option.splits)
    with a show "k \<in> {k. truthy k \<and>
           (\<exists>capabilityId cap c. capabilityId \<in> set (activeCapabilities d) \<and>
              find (\<lambda>cap. capability_id cap = capabilityId) t = Some cap \<and>
              c \<in> set (controlsOrEmpty cap) \<and> control_id c = k)}" by blast
  next
    fix k
    assume "k \<in> {k. truthy k \<and>
           (\<exists>capabilityId cap c. capabilityId \<in> set (activeCapabilities d) \<and>
              find (\<lambda>cap. capability_id cap = capabilityId) t = Some cap \<and>
              c \<in> set (controlsOrEmpty cap) \<and> control_id c = k)}"
    then obtain capabilityId cap c where "truthy k"
      and a: "capabilityId \<in> set (activeCapabilities d)"
      and f: "find (\<lambda>cap. capability_id cap = capabilityId) t = Some cap"
      and c: "c \<in> set (controlsOrEmpty cap)" "control_id c = k" by blast
    then have "k \<in> controlsVia t capabilityId" by (auto simp: controlsVia_def)
    with a show "k \<in> (\<Union>capabilityId \<in> set (activeCapabilities d). controlsVia t capabilityId)"
      by blast
  qed
  finally have 2: "set (map csel_control_id (serializeControlSelections d)) =
       {k. truthy k \<and>
           (\<exists>capabilityId cap c. capabilityId \<in> set (activeCapabilities d) \<and>
              find (\<lambda>cap. capability_id cap = capabilityId) t = Some cap \<and>
              c \<in> set (controlsOrEmpty cap) \<and> control_id c = k)}"
    by (simp only: ids)
  have 3: "\<forall>e \<in> set (serializeControlSelections d).
        csel_is_active e = (csel_control_id e \<in> set (activeControls d))"
    using ok unfolding res selections_ok_def by auto
  from 1 2 3 show ?thesis by blast
qed

theorem serializeControlSelections_reachable_witness:
  "treeData (ex_dashboard\<lparr>activeControls := [Str ''CTL-S'']\<rparr>) = Some ex_tree \<and>
   distinct (map csel_control_id
     (serializeControlSelections (ex_dashboard\<lparr>activeControls := [Str ''CTL-S'']\<rparr>))) \<and>
   (\<exists>e. e \<in> set (serializeControlSelections (ex_dashboard\<lparr>activeControls := [Str ''CTL-S'']\<rparr>)) \<and>
        csel_control_id e = Str ''CTL-S'' \<and> csel_is_active e) \<and>
   (\<exists>e. e \<in> set (serializeControlSelections (ex_dashboard\<lparr>activeControls := [Str ''CTL-S'']\<rparr>)) \<and>
        csel_control_id e = Str ''CTL-1'' \<and> \<not> csel_is_active e)"
proof -
  let ?d = "ex_dashboard\<lparr>activeControls := [Str ''CTL-S'']\<rparr>"
  have t: "treeData ?d = Some ex_tree"
    by (simp add: ex_dashboard_def)
  note r = serializeControlSelections_reachable [OF t]
  have a: "Str ''A'' \<in> set (activeCapabilities ?d)"
    and f: "find (\<lambda>cap. capability_id cap = Str ''A'') ex_tree = Some ex_capA"
    and s: "ex_ctlShared \<in> set (controlsOrEmpty ex_capA)" "control_id ex_ctlShared = Str ''CTL-S''"
    and o: "ex_ctl1 \<in> set (controlsOrEmpty ex_capA)" "control_id ex_ctl1 = Str ''CTL-1''"
    by (simp_all add: ex_defs controlsOrEmpty_def)
  from r a f s have "Str ''CTL-S'' \<in> set (map csel_control_id (serializeControlSelections ?d))"
    by (simp del: set_map) blast
  then obtain e where e: "e \<in> set (serializeControlSelections ?d)" "csel_control_id e = Str ''CTL-S''"
    by auto
  with r have "csel_is_active e" by (simp add: ex_dashboard_def)
  from r a f o have "Str ''CTL-1'' \<in> set (map csel_control_id (serializeControlSelections ?d))"
    by (simp del: set_map) blast
  then obtain e' where e': "e' \<in> set (serializeControlSelections ?d)" "csel_control_id e' = Str ''CTL-1''"
    by auto
  with r have "\<not> csel_is_active e'" by (simp add: ex_dashboard_def)
  from t r e \<open>csel_is_active e\<close> e' \<open>\<not> csel_is_active e'\<close> show ?thesis by blast
qed

section \<open>Toggling a capability\<close>

text \<open>
  Claim C5. When a capability is active, toggling it twice in a row (off, then on
  again), whatever the server answers to the two recomputations in between, leaves
  every control that was active before still active: the new \<open>activeControls\<close> is a
  superset of the old one. For a capability with a usable id it is exactly the old set
  together with all control ids of the capability, and \<open>activeCapabilities\<close> is back
  to what it was.
\<close>

theorem toggleCapability_twice:
  "capability_id cap \<in> set (activeCapabilities d) \<Longrightarrow>
     set (activeControls d) \<subseteq>
       set (activeControls (toggleCapability w2 cap (toggleCapability w1 cap d))) \<and>
     (truthy (capability_id cap) \<longrightarrow>
        set (activeControls (toggleCapability w2 cap (toggleCapability w1 cap d))) =
          set (activeControls d) \<union> control_id ` set (controlsOrEmpty cap) \<and>
        set (activeCapabilities (toggleCapability w2 cap (toggleCapability w1 cap d))) =
          set (activeCapabilities d))"
proof (cases "truthy (capability_id cap)")
  case False
  then show ?thesis by (simp add: toggleCapability_invalid)
next
  case True
  assume a: "capability_id cap \<in> set (activeCapabilities d)"
  let ?d1 = "toggleCapability w1 cap d"
  from True a have 1: "set (activeCapabilities ?d1) = set (activeCapabilities d) - {capability_id cap}"
    and 2: "set (activeControls ?d1) = set (activeControls d) - control_id ` set (controlsOrEmpty cap)"
    by (simp_all add: toggleCapability_sets)
  from 1 have n: "capability_id cap \<notin> set (activeCapabilities ?d1)" by simp
  from True n have 3: "set (activeCapabilities (toggleCapability w2 cap ?d1)) =
      insert (capability_id cap) (set (activeCapabilities ?d1))"
    and 4: "set (activeControls (toggleCapability w2 cap ?d1)) =
      set (activeControls ?d1) \<union> control_id ` set (controlsOrEmpty cap)"
    by (simp_all add: toggleCapability_sets)
  from a 1 2 3 4 show ?thesis by auto
qed

theorem toggleCapability_twice_witness:
  "Str ''A'' \<in> set (activeCapabilities (ex_dashboard\<lparr>activeControls := [Str ''CTL-2'', Str ''CTL-1'']\<rparr>)) \<and>
   set (activeControls
     (toggleCapability ex_world ex_capA
        (toggleCapability ex_world ex_capA
           (ex_dashboard\<lparr>activeControls := [Str ''CTL-2'', Str ''CTL-1'']\<rparr>)))) =
     {Str ''CTL-2'', Str ''CTL-1'', Str ''CTL-S''}"
  using toggleCapability_twice [of ex_capA "ex_dashboard\<lparr>activeControls := [Str ''CTL-2'', Str ''CTL-1'']\<rparr>" ex_world ex_world]
  by (auto simp: ex_defs controlsOrEmpty_def)

text \<open>
  Claim C10. Deactivating an active capability removes every control id listed under
  it from \<open>activeControls\<close>, whether or not another capability lists the same id. So
  any other capability that stays active and shares a control id with it is then
  partially-active, untouched as it is; the worksheet of three capabilities shows one
  that was fully-active before.
\<close>

theorem toggleCapability_deactivate_shared:
  "truthy (capability_id a) \<Longrightarrow> capability_id a \<in> set (activeCapabilities d) \<Longrightarrow>
     (\<forall>c \<in> set (controlsOrEmpty a). control_id c \<notin> set (activeControls (toggleCapability w a d))) \<and>
     (\<forall>b. capability_id b \<in> set (activeCapabilities d) \<and> capability_id b \<noteq> capability_id a \<and>
          control_id ` set (controlsOrEmpty a) \<inter> control_id ` set (controlsOrEmpty b) \<noteq> {} \<longrightarrow>
          capability_id b \<in> set (activeCapabilities (toggleCapability w a d)) \<and>
          computeStatus (toggleCapability w a d) b = PartiallyActive)"
  by (auto simp: toggleCapability_sets computeStatus_char) (metis imageI)

theorem toggleCapability_deactivate_shared_witness:
  "truthy (capability_id ex_capA) \<and> capability_id ex_capA \<in> set (activeCapabilities ex_dashboard) \<and>
   computeStatus ex_dashboard ex_capB = FullyActive \<and>
   Str ''CTL-S'' \<notin> set (activeControls (toggleCapability ex_world ex_capA ex_dashboard)) \<and>
   Str ''B'' \<in> set (activeCapabilities (toggleCapability ex_world ex_capA ex_dashboard)) \<and>
   computeStatus (toggleCapability ex_world ex_capA ex_dashboard) ex_capB = PartiallyActive"
proof -
  have h: "truthy (capability_id ex_capA)" "capability_id ex_capA \<in> set (activeCapabilities ex_dashboard)"
    by (simp_all add: ex_defs)
  have b: "capability_id ex_capB \<in> set (activeCapabilities ex_dashboard)"
    "capability_id ex_capB \<noteq> capability_id ex_capA"
    "control_id ` set (controlsOrEmpty ex_capA) \<inter> control_id ` set (controlsOrEmpty ex_capB) \<noteq> {}"
    "ex_ctlShared \<in> set (controlsOrEmpty ex_capA)" "control_id ex_ctlShared = Str ''CTL-S''"
    "capability_id ex_capB = Str ''B''"
    by (simp_all add: ex_defs controlsOrEmpty_def)
  have f: "computeStatus ex_dashboard ex_capB = FullyActive"
    by (simp add: computeStatus_char ex_defs controlsOrEmpty_def)
  from toggleCapability_deactivate_shared [OF h, of ex_world] h b f show ?thesis
    by (metis)
qed

section \<open>The metrics request\<close>

lemma analysisRequests_append [simp]:
  "analysisRequests (xs @ ys) = analysisRequests xs @ analysisRequests ys"
  by (induction xs rule: analysisRequests.induct) simp_all

lemma updateActiveControlsCard_requests [simp]:
  "analysisRequests (events (updateActiveControlsCard m d)) = analysisRequests (events d)"
  by (simp add: updateActiveControlsCard_def Let_def split: option.splits)

lemma updatePartiallyCoveredCard_requests [simp]:
  "analysisRequests (events (updatePartiallyCoveredCard p e a m d)) = analysisRequests (events d)"
  by (simp add: updatePartiallyCoveredCard_def Let_def split: option.splits prod.splits)

lemma updateExposedRisksCard_requests [simp]:
  "analysisRequests (events (updateExposedRisksCard e m d)) = analysisRequests (events d)"
  by (simp add: updateExposedRisksCard_def Let_def split: option.splits)

lemma showMetricChangeSummary_requests [simp]:
  "analysisRequests (events (showMetricChangeSummary c d)) = analysisRequests (events d)"
  by (simp add: showMetricChangeSummary_def Let_def)

lemma recalculateMetrics_requests:
  "analysisRequests (events (recalculateMetrics w d)) =
     analysisRequests (events d) @ [analysisPayload d]"
  by (simp add: recalculateMetrics_def Let_def split: option.splits)

lemma requestPayload_char:
  "capability_ids (requestPayload caps ctls) = caps"
  "control_ids (requestPayload caps ctls) =
     (case ctls of None \<Rightarrow> None | Some cs \<Rightarrow> if cs = [] then None else Some cs)"
  by (simp_all add: requestPayload_def Let_def split: option.splits)

text \<open>
  Claim C1. Every recomputation sends exactly one request, whose \<open>capability_ids\<close> is
  the list of active capabilities whatever it holds, and which has a \<open>control_ids\<close>
  field if and only if the set of active controls is not empty; the field then is the
  list of active controls. With no active control the payload has no \<open>control_ids\<close>
  field at all, and so differs from every payload that carries a \<open>control_ids\<close> list,
  the empty list included.
\<close>

theorem recalculateMetrics_payload:
  "analysisRequests (events (recalculateMetrics w d)) =
     analysisRequests (events d) @ [analysisPayload d] \<and>
   capability_ids (analysisPayload d) = activeCapabilities d \<and>
   (control_ids (analysisPayload d) \<noteq> None) = (activeControls d \<noteq> []) \<and>
   (activeControls d \<noteq> [] \<longrightarrow> control_ids (analysisPayload d) = Some (activeControls d)) \<and>
   (activeControls d = [] \<longrightarrow>
      control_ids (analysisPayload d) = None \<and>
      (\<forall>cs. analysisPayload d \<noteq> \<lparr>capability_ids = activeCapabilities d, control_ids = Some cs\<rparr>))"
  by (auto simp: recalculateMetrics_requests analysisPayload_def requestPayload_def Let_def)

theorem recalculateMetrics_payload_witness:
  "analysisRequests (events (recalculateMetrics ex_world (ex_dashboard\<lparr>activeControls := []\<rparr>))) =
     [\<lparr>capability_ids = [Str ''A'', Str ''B'', Str ''Z''], control_ids = None\<rparr>] \<and>
   analysisRequests (events (recalculateMetrics ex_world ex_dashboard)) =
     [\<lparr>capability_ids = [Str ''A'', Str ''B'', Str ''Z''],
       control_ids = Some [Str ''CTL-1'', Str ''CTL-S'', Str ''CTL-2'']\<rparr>] \<and>
   \<lparr>capability_ids = [Str ''A'', Str ''B'', Str ''Z''], control_ids = None\<rparr> \<noteq>
     \<lparr>capability_ids = [Str ''A'', Str ''B'', Str ''Z''], control_ids = Some []\<rparr>"
proof -
  let ?d = "ex_dashboard\<lparr>activeControls := []\<rparr>"
  have e: "events ?d = []" "events ex_dashboard = []"
    "activeCapabilities ?d = [Str ''A'', Str ''B'', Str ''Z'']" "activeControls ?d = []"
    "activeCapabilities ex_dashboard = [Str ''A'', Str ''B'', Str ''Z'']"
    "activeControls ex_dashboard = [Str ''CTL-1'', Str ''CTL-S'', Str ''CTL-2'']"
    by (simp_all add: ex_dashboard_def)
  have p: "analysisPayload ?d = \<lparr>capability_ids = [Str ''A'', Str ''B'', Str ''Z''], control_ids = None\<rparr>"
    using recalculateMetrics_payload [of ex_world ?d] e by (cases "analysisPayload ?d") simp
  have q: "analysisPayload ex_dashboard = \<lparr>capability_ids = [Str ''A'', Str ''B'', Str ''Z''],
       control_ids = Some [Str ''CTL-1'', Str ''CTL-S'', Str ''CTL-2'']\<rparr>"
    using recalculateMetrics_payload [of ex_world ex_dashboard] e by (cases "analysisPayload ex_dashboard") simp
  from recalculateMetrics_payload [of ex_world ?d] recalculateMetrics_payload [of ex_world ex_dashboard] p q e
  show ?thesis by simp
qed

section \<open>The colour of a change of partially covered risks\<close>

lemma partialAnimations_append [simp]:
  "partialAnimations (xs @ ys) = partialAnimations xs @ partialAnimations ys"
  by (induction xs rule: partialAnimations.induct) simp_all

lemma updateActiveControlsCard_partial [simp]:
  "partialAnimations (events (updateActiveControlsCard m d)) = partialAnimations (events d)"
  "prev_exposed_risks (previousMetrics (updateActiveControlsCard m d)) = prev_exposed_risks (previousMetrics d)"
  "prev_active_risks (previousMetrics (updateActiveControlsCard m d)) = prev_active_risks (previousMetrics d)"
  "prev_partially_covered_risks (previousMetrics (updateActiveControlsCard m d)) =
     prev_partially_covered_risks (previousMetrics d)"
  by (simp_all add: updateActiveControlsCard_def Let_def split: option.splits)

lemma updatePartiallyCoveredCard_partial [simp]:
  "partialAnimations (events (updatePartiallyCoveredCard p e a m d)) =
     partialAnimations (events d) @
       (case partiallyCoveredChange p e a m of None \<Rightarrow> [] | Some x \<Rightarrow> [x])"
  by (simp add: updatePartiallyCoveredCard_def Let_def split: option.splits prod.splits)

lemma updateExposedRisksCard_partial [simp]:
  "partialAnimations (events (updateExposedRisksCard e m d)) = partialAnimations (events d)"
  by (simp add: updateExposedRisksCard_def Let_def split: option.splits)

lemma showMetricChangeSummary_partial [simp]:
  "partialAnimations (events (showMetricChangeSummary c d)) = partialAnimations (events d)"
  by (simp add: showMetricChangeSummary_def Let_def)

lemma recalculateMetrics_partial:
  "capability_analysis_reply w = Some m \<Longrightarrow> partiallyCoveredEl (document w) \<Longrightarrow>
   partialAnimations (events (recalculateMetrics w d)) =
     partialAnimations (events d) @
       (case partiallyCoveredChange (prev_partially_covered_risks (previousMetrics d))
               (prev_exposed_risks (previousMetrics d)) (prev_active_risks (previousMetrics d)) m of
          None \<Rightarrow> [] | Some x \<Rightarrow> [x])"
  by (simp add: recalculateMetrics_def Let_def)

lemma partiallyCoveredColorType_spec:
  "change > 0 \<or> activeRisksChange > 0 \<or> exposedChange \<le> 0 \<Longrightarrow>
   partiallyCoveredColorType change exposedChange activeRisksChange =
     spec_partiallyCoveredColor change exposedChange activeRisksChange"
  by (auto simp: partiallyCoveredColorType_def spec_partiallyCoveredColor_def)

text \<open>
  Claim C2, as the code has it. In a recomputation that succeeds, on a page with the
  partially-covered card, with the three previous values known and a partial count
  that changed, the card is animated once, with the difference and this colour: when
  the count went up, green if exposed risks went down and yellow otherwise; when the
  count went down, yellow if exposed risks went up while fully covered risks did not,
  and green otherwise. The table of the specification gives green for every decrease;
  the code agrees with it except in that one case (\<open>partiallyCoveredColorType_spec\<close>).
\<close>

theorem recalculateMetrics_partial_color:
  assumes "capability_analysis_reply w = Some m" and "partiallyCoveredEl (document w)"
    and "prev_partially_covered_risks (previousMetrics d) = Some p"
    and "prev_exposed_risks (previousMetrics d) = Some e"
    and "prev_active_risks (previousMetrics d) = Some a"
    and "partially_covered_risks m \<noteq> p"
  shows "partialAnimations (events (recalculateMetrics w d)) =
     partialAnimations (events d) @
       [(partially_covered_risks m - p,
         if partially_covered_risks m > p
         then (if exposed_risks m < e then Green else Yellow)
         else (if exposed_risks m > e \<and> active_risks m \<le> a then Yellow else Green))]"
  using assms
  by (simp add: recalculateMetrics_partial partiallyCoveredChange_def
        partiallyCoveredColorType_def Let_def)

theorem recalculateMetrics_partial_color_witness:
  "capability_analysis_reply ex_world = Some ex_metrics \<and> partiallyCoveredEl (document ex_world) \<and>
   prev_partially_covered_risks (previousMetrics ex_shown) = Some 5 \<and>
   prev_exposed_risks (previousMetrics ex_shown) = Some 2 \<and>
   prev_active_risks (previousMetrics ex_shown) = Some 3 \<and>
   partially_covered_risks ex_metrics \<noteq> 5 \<and>
   partialAnimations (events (recalculateMetrics ex_world ex_shown)) = [(- 4, Green)]"
proof -
  have h: "capability_analysis_reply ex_world = Some ex_metrics" "partiallyCoveredEl (document ex_world)"
    "prev_partially_covered_risks (previousMetrics ex_shown) = Some 5"
    "prev_exposed_risks (previousMetrics ex_shown) = Some 2"
    "prev_active_risks (previousMetrics ex_shown) = Some 3"
    "partially_covered_risks ex_metrics \<noteq> 5"
    by (simp_all add: ex_world_def ex_shown_def ex_metrics_def ex_dashboard_def)
  from recalculateMetrics_partial_color [OF h] h show ?thesis
    by (simp add: ex_metrics_def ex_shown_def ex_dashboard_def)
qed

text \<open>
  Previous values 5, 2 and 3 (partial, exposed, fully covered), new values 3, 4 and 3:
  the count went down and the card is animated in yellow, where the table of the
  specification gives green.
\<close>

theorem recalculateMetrics_partial_color_counterexample:
  "partialAnimations (events (recalculateMetrics
      (ex_world\<lparr>capability_analysis_reply :=
         Some \<lparr>total_controls = 3, controls_in_capabilities = 3, active_controls = 3,
               active_risks = 3, partially_covered_risks = 3, exposed_risks = 4\<rparr>\<rparr>)
      ex_shown)) = [(- 2, Yellow)] \<and>
   spec_partiallyCoveredColor (3 - 5) (4 - 2) (3 - 3) = Green"
  by (simp add: recalculateMetrics_partial partiallyCoveredChange_def
        partiallyCoveredColorType_def spec_partiallyCoveredColor_def Let_def ex_world_def ex_shown_def ex_dashboard_def)

section \<open>Saving without a scenario\<close>

lemma scenarioUpdates_append [simp]:
  "scenarioUpdates (xs @ ys) = scenarioUpdates xs @ scenarioUpdates ys"
  by (induction xs rule: scenarioUpdates.induct) simp_all

lemma persistDraft_fields:
  "activeCapabilities (persistDraft w d) = activeCapabilities d"
  "activeControls (persistDraft w d) = activeControls d"
  "scenarioManager (persistDraft w d) = scenarioManager d"
  "currentScenarioId (persistDraft w d) = currentScenarioId d"
  "events (persistDraft w d) =
     events d @ [UpdateSaveStatus (if mode (localStorage d) = Available then Saved else SaveError)]"
  "localStorage (persistDraft w d) =
     (if mode (localStorage d) = Available
      then (localStorage d)\<lparr>items := (items (localStorage d))
             (getDraftKey (draftManager_userId d) \<mapsto>
                \<lparr>draft_activeCapabilityIds = map json_ident (activeCapabilities d),
                 draft_activeControlIds = map json_ident (activeControls d),
                 draft_updatedAt = now w\<rparr>)\<rparr>
      else localStorage d)"
  by (simp_all add: persistDraft_def draft_persistDraft_def Let_def)

lemma saveScenario_without_scenario:
  "\<not> hasScenario d \<Longrightarrow>
   saveScenario w d = persistDraft w (showStatusMessage noWorksheetSelected Warning d)"
  by (simp add: saveScenario_def hasScenario_def Let_def split: option.splits)

text \<open>
  Claim C7. When no scenario is bound, \<open>saveScenario\<close> sends no scenario update:
  it shows one status message, of warning level, and hands the current selection to
  the draft store, whose outcome it shows on the save-status icon. With local storage
  available the draft under the user's key then holds the active capabilities and
  controls with the time of the call. The selection and the (absent) binding are as
  before.
\<close>

theorem saveScenario_unbound:
  assumes "\<not> hasScenario d"
  shows "events (saveScenario w d) =
       events d @ [ShowStatusMessage noWorksheetSelected Warning,
                   UpdateSaveStatus (if mode (localStorage d) = Available then Saved else SaveError)] \<and>
     scenarioUpdates (events (saveScenario w d)) = scenarioUpdates (events d) \<and>
     (mode (localStorage d) = Available \<longrightarrow>
        items (localStorage (saveScenario w d)) (getDraftKey (draftManager_userId d)) =
          Some \<lparr>draft_activeCapabilityIds = map json_ident (activeCapabilities d),
                draft_activeControlIds = map json_ident (activeControls d),
                draft_updatedAt = now w\<rparr>) \<and>
     activeCapabilities (saveScenario w d) = activeCapabilities d \<and>
     activeControls (saveScenario w d) = activeControls d \<and>
     \<not> hasScenario (saveScenario w d)"
  using assms
  by (simp add: saveScenario_without_scenario persistDraft_fields hasScenario_def)

theorem saveScenario_unbound_witness:
  "\<not> hasScenario ex_dashboard \<and>
   events (saveScenario ex_world ex_dashboard) =
     [ShowStatusMessage noWorksheetSelected Warning, UpdateSaveStatus Saved] \<and>
   items (localStorage (saveScenario ex_world ex_dashboard)) (getDraftKey (Num 1)) =
     Some \<lparr>draft_activeCapabilityIds = [Str ''A'', Str ''B'', Str ''Z''],
           draft_activeControlIds = [Str ''CTL-1'', Str ''CTL-S'', Str ''CTL-2''],
           draft_updatedAt = ''2024-05-01T09:30:00.000Z''\<rparr>"
proof -
  have h: "\<not> hasScenario ex_dashboard" by (simp add: hasScenario_def ex_dashboard_def)
  from saveScenario_unbound [OF h, of ex_world] h show ?thesis
    by (simp add: ex_dashboard_def ex_world_def)
qed

section \<open>Loading a scenario\<close>

lemma set_restoreControlSelections:
  "set (restoreControlSelections cs s) =
     set s \<union> {csel_control_id c | c. c \<in> set cs \<and> csel_is_active c}"
  unfolding restoreControlSelections_def
  by (induction cs arbitrary: s) (auto simp: set_add_def)

lemma set_activeSelections:
  "set (fold (\<lambda>sel s. if sel_is_active sel then set_add (sel_capability_id sel) s else s) sels s) =
     set s \<union> {sel_capability_id sel | sel. sel \<in> set sels \<and> sel_is_active sel}"
  by (induction sels arbitrary: s) (auto simp: set_add_def)

lemma set_defaultControls:
  "set (defaultControls t caps s) = set s \<union> (\<Union>capabilityId \<in> set caps. controlsUnder t capabilityId)"
  unfolding defaultControls_def
  by (induction caps arbitrary: s)
     (auto simp: controlsUnder_def controlsOrEmpty_def set_fold_set_add split: option.splits)

lemma applyScenario_sets:
  "activeCapabilities (applyScenario w scenarioId sc d) =
     fold (\<lambda>sel s. if sel_is_active sel then set_add (sel_capability_id sel) s else s)
       (scn_selections sc) []"
  "currentScenarioId (applyScenario w scenarioId sc d) = scenarioId"
  "treeData (applyScenario w scenarioId sc d) = treeAfterLoad w d"
  "scenarioManager (applyScenario w scenarioId sc d) = scenarioManager d"
  "activeControls (applyScenario w scenarioId sc d) =
     (case scn_control_selections sc of
        None \<Rightarrow> (case treeAfterLoad w d of
                    None \<Rightarrow> []
                  | Some t \<Rightarrow> defaultControls t (activeCapabilities (applyScenario w scenarioId sc d)) [])
      | Some cs \<Rightarrow>
          if cs \<noteq> [] then restoreControlSelections cs []
          else (case treeAfterLoad w d of
                  None \<Rightarrow> []
                | Some t \<Rightarrow> defaultControls t (activeCapabilities (applyScenario w scenarioId sc d)) []))"
  by (simp_all add: applyScenario_def Let_def treeAfterLoad_def split: option.splits)

lemma loadScenario_success:
  assumes "truthy scenarioId" and "get_scenario_reply w = Inr sc"
    and "truthy (userId d) \<or> (\<exists>uid. fetchUserId w = Inr uid)"
  shows "\<exists>d0. loadScenario w scenarioId d = applyScenario w scenarioId sc d0 \<and>
           treeData d0 = treeData d \<and>
           (\<exists>sm. scenarioManager d0 = Some sm \<and> sm_currentScenarioId sm = scenarioId)"
  using assms
  by (auto simp: loadScenario_def sm_loadScenario_def Let_def split: sum.splits option.splits)


lemma setcompr_filter: "{f x | x. x \<in> set xs \<and> P x} = f ` set (filter P xs)"
  by auto

text \<open>
  Claim C8, as the code has it. A successful load of a scenario by a usable id binds
  the scenario and activates exactly the capabilities that its selections flag as
  active. A \<open>control_selections\<close> list that is present and not empty then decides
  \<open>activeControls\<close> exactly: the control ids that it flags as active. When the list
  is absent or empty, the controls of the active capabilities are all switched on, as
  far as the tree (loaded before, or fetched now) lists them.
\<close>

theorem loadScenario_control_selections:
  assumes "truthy scenarioId" and "get_scenario_reply w = Inr sc"
    and "truthy (userId d) \<or> (\<exists>uid. fetchUserId w = Inr uid)"
  shows "hasScenario (loadScenario w scenarioId d) \<and>
     currentScenarioId (loadScenario w scenarioId d) = scenarioId \<and>
     set (activeCapabilities (loadScenario w scenarioId d)) =
       {sel_capability_id sel | sel. sel \<in> set (scn_selections sc) \<and> sel_is_active sel} \<and>
     (\<forall>cs. scn_control_selections sc = Some cs \<and> cs \<noteq> [] \<longrightarrow>
        set (activeControls (loadScenario w scenarioId d)) =
          {csel_control_id c | c. c \<in> set cs \<and> csel_is_active c}) \<and>
     (scn_control_selections sc = None \<or> scn_control_selections sc = Some [] \<longrightarrow>
        set (activeControls (loadScenario w scenarioId d)) =
          (case treeAfterLoad w d of
             None \<Rightarrow> {}
           | Some t \<Rightarrow>
               (\<Union>capabilityId \<in> set (activeCapabilities (loadScenario w scenarioId d)).
                  controlsUnder t capabilityId)))"
proof -
  from loadScenario_success [OF assms] obtain d0 sm
    where l: "loadScenario w scenarioId d = applyScenario w scenarioId sc d0"
      and t: "treeData d0 = treeData d"
      and m: "scenarioManager d0 = Some sm" "sm_currentScenarioId sm = scenarioId"
    by blast
  have tt: "treeAfterLoad w d0 = treeAfterLoad w d"
    using t by (simp add: treeAfterLoad_def)
  have 1: "hasScenario (loadScenario w scenarioId d)"
    using m assms(1) by (simp add: l hasScenario_def applyScenario_sets)
  have 2: "currentScenarioId (loadScenario w scenarioId d) = scenarioId"
    by (simp add: l applyScenario_sets)
  have 3: "set (activeCapabilities (loadScenario w scenarioId d)) =
       {sel_capability_id sel | sel. sel \<in> set (scn_selections sc) \<and> sel_is_active sel}"
    by (simp add: l applyScenario_sets set_activeSelections)
  have 4: "\<forall>cs. scn_control_selections sc = Some cs \<and> cs \<noteq> [] \<longrightarrow>
        set (activeControls (loadScenario w scenarioId d)) =
          {csel_control_id c | c. c \<in> set cs \<and> csel_is_active c}"
    by (simp add: l applyScenario_sets(5) set_restoreControlSelections)
  have 5: "scn_control_selections sc = None \<or> scn_control_selections sc = Some [] \<longrightarrow>
        set (activeControls (loadScenario w scenarioId d)) =
          (case treeAfterLoad w d of
             None \<Rightarrow> {}
           | Some t \<Rightarrow>
               (\<Union>capabilityId \<in> set (activeCapabilities (loadScenario w scenarioId d)).
                  controlsUnder t capabilityId))"
    by (auto simp: l applyScenario_sets(5) tt set_defaultControls split: option.splits)
  from 1 2 3 4 5 show ?thesis by blast
qed

theorem loadScenario_control_selections_witness:
  "truthy (Num 7) \<and> get_scenario_reply ex_world = Inr ex_scenario \<and> truthy (userId ex_dashboard) \<and>
   scn_control_selections ex_scenario =
     Some [\<lparr>csel_control_id = Str ''CTL-1'', csel_is_active = True\<rparr>,
           \<lparr>csel_control_id = Str ''CTL-S'', csel_is_active = False\<rparr>] \<and>
   hasScenario (loadScenario ex_world (Num 7) ex_dashboard) \<and>
   set (activeCapabilities (loadScenario ex_world (Num 7) ex_dashboard)) = {Str ''A''} \<and>
   set (activeControls (loadScenario ex_world (Num 7) ex_dashboard)) = {Str ''CTL-1''}"
proof -
  have h: "truthy (Num 7)" "get_scenario_reply ex_world = Inr ex_scenario"
    "truthy (userId ex_dashboard) \<or> (\<exists>uid. fetchUserId ex_world = Inr uid)"
    by (simp_all add: ex_world_def ex_dashboard_def)
  have u: "truthy (userId ex_dashboard)" by (simp add: ex_dashboard_def)
  have c: "scn_control_selections ex_scenario =
     Some [\<lparr>csel_control_id = Str ''CTL-1'', csel_is_active = True\<rparr>,
           \<lparr>csel_control_id = Str ''CTL-S'', csel_is_active = False\<rparr>]"
    by (simp add: ex_scenario_def)
  have s: "{sel_capability_id sel | sel. sel \<in> set (scn_selections ex_scenario) \<and> sel_is_active sel} = {Str ''A''}"
    by (subst setcompr_filter) (simp add: ex_scenario_def)
  have a: "{csel_control_id c | c. c \<in> set [\<lparr>csel_control_id = Str ''CTL-1'', csel_is_active = True\<rparr>,
           \<lparr>csel_control_id = Str ''CTL-S'', csel_is_active = False\<rparr>] \<and> csel_is_active c} = {Str ''CTL-1''}"
    by (subst setcompr_filter) simp
  from loadScenario_control_selections [OF h] c s a h(1,2) u show ?thesis
    by simp
qed

text \<open>
  A scenario whose \<open>control_selections\<close> is present but empty: the load does not
  leave \<open>activeControls\<close> empty, it switches on both controls of the one active
  capability.
\<close>

theorem loadScenario_control_selections_counterexample:
  "scn_control_selections (ex_scenario\<lparr>scn_control_selections := Some []\<rparr>) = Some [] \<and>
   activeControls
     (loadScenario
        (ex_world\<lparr>get_scenario_reply := Inr (ex_scenario\<lparr>scn_control_selections := Some []\<rparr>)\<rparr>)
        (Num 7) ex_dashboard) = [Str ''CTL-1'', Str ''CTL-S'']"
  by (simp add: loadScenario_def sm_loadScenario_def applyScenario_sets treeAfterLoad_def
        defaultControls_def set_add_def ex_defs ex_world_def ex_scenario_def Let_def)

section \<open>Deleting the bound scenario\<close>

lemma clearDraft_fields [simp]:
  "activeCapabilities (clearDraft d) = activeCapabilities d"
  "activeControls (clearDraft d) = activeControls d"
  "treeData (clearDraft d) = treeData d"
  "scenarioManager (clearDraft d) = scenarioManager d"
  "currentScenarioId (clearDraft d) = currentScenarioId d"
  "draftManager_userId (clearDraft d) = draftManager_userId d"
  "localStorage (clearDraft d) = draft_clearDraft (draftManager_userId d) (localStorage d)"
  by (simp_all add: clearDraft_def)

lemma deleteScenario_success:
  assumes "scenarioManager d = Some sm" and "truthy (sm_currentScenarioId sm)"
    and "confirm_answer w" and "delete_scenario_reply w = Inr ()" and "get_scenarios_reply w = Inr l"
  shows "activeCapabilities (deleteScenario w d) = []"
    and "activeControls (deleteScenario w d) = activeControls d"
    and "currentScenarioId (deleteScenario w d) = Null"
    and "scenarioManager (deleteScenario w d) = Some (sm\<lparr>sm_scenarios := l, sm_currentScenarioId := Null\<rparr>)"
    and "localStorage (deleteScenario w d) = draft_clearDraft (draftManager_userId d) (localStorage d)"
    and "treeData (deleteScenario w d) = treeData d"
  using assms
  by (simp_all add: deleteScenario_def sm_deleteScenario_def sm_loadScenarios_def Let_def)

text \<open>
  Claim C9, on the worksheet with scenario 7 bound: a confirmed deletion that the
  server accepts unbinds the scenario, removes the local draft and empties
  \<open>activeCapabilities\<close>, but all three controls are still in \<open>activeControls\<close>
  afterwards. By \<open>deleteScenario_success\<close> this is so from every bound state, with
  or without tree data: the set of active controls is not written at all.
\<close>

theorem deleteScenario_keeps_activeControls:
  "hasScenario ex_bound \<and>
   items (localStorage ex_bound) (getDraftKey (Num 1)) = Some ex_draft \<and>
   \<not> hasScenario (deleteScenario ex_world ex_bound) \<and>
   currentScenarioId (deleteScenario ex_world ex_bound) = Null \<and>
   items (localStorage (deleteScenario ex_world ex_bound)) (getDraftKey (Num 1)) = None \<and>
   activeCapabilities (deleteScenario ex_world ex_bound) = [] \<and>
   activeControls (deleteScenario ex_world ex_bound) = [Str ''CTL-1'', Str ''CTL-S'', Str ''CTL-2'']"
proof -
  have h: "scenarioManager ex_bound =
      Some \<lparr>sm_userId = Num 1, sm_scenarios = [ex_scenario], sm_currentScenarioId = Num 7\<rparr>"
    "truthy (sm_currentScenarioId \<lparr>sm_userId = Num 1, sm_scenarios = [ex_scenario], sm_currentScenarioId = Num 7\<rparr>)"
    "confirm_answer ex_world" "delete_scenario_reply ex_world = Inr ()"
    "get_scenarios_reply ex_world = Inr []"
    by (simp_all add: ex_bound_def ex_world_def)
  show ?thesis
    by (simp add: deleteScenario_success [OF h] hasScenario_def draft_clearDraft_def)
       (simp add: ex_bound_def ex_dashboard_def)
qed

end
